theory Spec2Isabelle
  imports Main "HOL-Library.Char_ord" "HOL-Library.List_Lexorder" "HOL-Library.AList"
begin

section \<open>Python values, dictionaries and exceptions\<close>

text \<open>
  The Lambda functions of the repository work on JSON-shaped dictionaries. A field value
  is a JSON scalar; the carrier \<open>'f\<close> of floating point numbers is left open, and the
  built-in operations on it (\<open>str\<close>, truthiness, \<open>float\<close>, \<open>Decimal\<close>, fixed-point
  formatting) are parameters collected in the record \<open>builtins\<close>. A dictionary is an
  association list read with \<open>map_of\<close>. A string is the list of the bytes of its UTF-8
  encoding.
\<close>

datatype 'f pyval = PNone | PBool bool | PInt int | PFloat 'f | PStr string

type_synonym 'f pydict = "(string \<times> 'f pyval) list"

datatype pyexn =
    KeyError string
  | ValueError string
  | AttributeError
  | InvalidOperation
  | ConditionalCheckFailedException
  | ClientError string
  | URLError string

record 'f builtins =
  float_str :: "'f \<Rightarrow> string"
  float_is_zero :: "'f \<Rightarrow> bool"
  decimal_ok :: "string \<Rightarrow> bool"
  float_of_str :: "string \<Rightarrow> 'f option"
  float_of_int :: "int \<Rightarrow> 'f"
  format_fixed :: "nat \<Rightarrow> 'f pyval \<Rightarrow> string"

text \<open>\<open>str(n)\<close> for a non-negative integer: its decimal digits.\<close>

definition digit_char :: "nat \<Rightarrow> char" where
  "digit_char d = ''0123456789'' ! d"

fun str_nat :: "nat \<Rightarrow> string" where
  "str_nat n = (if n < 10 then [digit_char n] else str_nat (n div 10) @ [digit_char (n mod 10)])"

declare str_nat.simps [simp del]

definition str_int :: "int \<Rightarrow> string" where
  "str_int i = (if i < 0 then CHR ''-'' # str_nat (nat (- i)) else str_nat (nat i))"

text \<open>\<open>str(v)\<close>, as an f-string \<open>f"{v}"\<close> renders a value.\<close>

fun py_str :: "('f, 'z) builtins_scheme \<Rightarrow> 'f pyval \<Rightarrow> string" where
  "py_str B PNone = ''None''"
| "py_str B (PBool b) = (if b then ''True'' else ''False'')"
| "py_str B (PInt i) = str_int i"
| "py_str B (PFloat x) = float_str B x"
| "py_str B (PStr s) = s"

text \<open>Truthiness, as \<open>if v\<close> tests it.\<close>

fun truthy :: "('f, 'z) builtins_scheme \<Rightarrow> 'f pyval \<Rightarrow> bool" where
  "truthy B PNone = False"
| "truthy B (PBool b) = b"
| "truthy B (PInt i) = (i \<noteq> 0)"
| "truthy B (PFloat x) = (\<not> float_is_zero B x)"
| "truthy B (PStr s) = (s \<noteq> [])"

text \<open>\<open>d.get(k, default)\<close> and \<open>d[k]\<close>.\<close>

definition dict_get :: "'f pydict \<Rightarrow> string \<Rightarrow> 'f pyval \<Rightarrow> 'f pyval" where
  "dict_get d k dflt = (case map_of d k of None \<Rightarrow> dflt | Some v \<Rightarrow> v)"

definition dict_item :: "'f pydict \<Rightarrow> string \<Rightarrow> pyexn + 'f pyval" where
  "dict_item d k = (case map_of d k of None \<Rightarrow> Inl (KeyError k) | Some v \<Rightarrow> Inr v)"

text \<open>\<open>Decimal(s)\<close>: the decimal number written \<open>s\<close>, or InvalidOperation.\<close>

datatype decimal = Decimal string

definition to_decimal :: "('f, 'z) builtins_scheme \<Rightarrow> string \<Rightarrow> pyexn + decimal" where
  "to_decimal B s = (if decimal_ok B s then Inr (Decimal s) else Inl InvalidOperation)"

section \<open>The Processor: \<open>src/lambda/process_fires.py\<close>\<close>

text \<open>
  An item of the table: a dictionary from attribute names to attribute values. The clock
  readings (\<open>timestamp\<close>, \<open>created_at\<close>) are kept as seconds since the epoch.
\<close>

datatype 'f attr_value = AStr string | ANum nat | ADec decimal | AVal "'f pyval"

type_synonym 'f item = "(string \<times> 'f attr_value) list"

text \<open>
  What the three \<open>print\<close> statements around \<open>put_item\<close> report: the observable outcome of
  each store write.
\<close>

datatype store_event = Stored string | Duplicate string | StoreFailed string

text \<open>The top level of a parsed JSON document: an object or anything else.\<close>

datatype 'f json = JObject "'f pydict" | JNotObject

text \<open>
  The collaborators of the Processor. \<open>time_at n\<close> is the \<open>n\<close>-th reading of
  \<open>datetime.now()\<close> in seconds since the epoch; \<open>put_fault n\<close> is the error, other than a
  failed condition, that the \<open>n\<close>-th \<open>put_item\<close> call meets; \<open>secret_api_key\<close> is the
  reading of the credential from the secrets service and \<open>environ_api_key\<close> the
  environment variable \<open>BIGDATACLOUD_API_KEY\<close>; \<open>geocode key lat lon\<close> is the outcome of the request to the
  reverse-geocode service followed by \<open>json.loads\<close>: \<open>Inl\<close> when any of it raises.
\<close>

record 'f env = "'f builtins" +
  time_at :: "nat \<Rightarrow> nat"
  put_fault :: "nat \<Rightarrow> string option"
  secret_api_key :: "pyexn + string"
  environ_api_key :: "string option"
  geocode :: "string \<Rightarrow> 'f pyval \<Rightarrow> 'f pyval \<Rightarrow> pyexn + 'f json"

text \<open>
  The state an invocation works on: the table keyed by \<open>fire_id\<close> (the store of the
  spec, section 6: a key-value store with conditional create-if-absent), the module-level
  credential cache, the number of clock readings and of \<open>put_item\<close> calls so far, and the
  printed store outcomes.
\<close>

record 'f world =
  table :: "(string \<times> 'f item) list"
  api_key_cache :: "string option"
  reads :: nat
  puts :: nat
  store_log :: "store_event list"

text \<open>
  \<open>store_fire_data\<close>, lines 213-222: the identity key. \<open>fire['latitude']\<close> raises KeyError
  on a record without the key.
\<close>

definition acq_datetime :: "('f, 'z) builtins_scheme \<Rightarrow> 'f pydict \<Rightarrow> string" where
  "acq_datetime B fire =
     py_str B (dict_get fire ''acq_date'' (PStr '''')) @ ''_'' @
     py_str B (dict_get fire ''acq_time'' (PStr ''''))"

definition derive_fire_id :: "('f, 'z) builtins_scheme \<Rightarrow> 'f pydict \<Rightarrow> nat \<Rightarrow> pyexn + string" where
  "derive_fire_id B fire ts =
     (case dict_item fire ''latitude'' of Inl e \<Rightarrow> Inl e | Inr lat \<Rightarrow>
      case dict_item fire ''longitude'' of Inl e \<Rightarrow> Inl e | Inr lon \<Rightarrow>
        if acq_datetime B fire = ''_''
        then Inr (py_str B lat @ ''_'' @ py_str B lon @ ''_'' @ str_nat ts)
        else Inr (py_str B lat @ ''_'' @ py_str B lon @ ''_'' @ acq_datetime B fire))"

text \<open>
  Lines 225-243: the item. The dictionary literal is evaluated key by key, so the first
  failing conversion decides the exception; \<open>created_at\<close> is read from the clock last.
\<close>

definition bind_exn :: "pyexn + 'a \<Rightarrow> ('a \<Rightarrow> pyexn + 'b) \<Rightarrow> pyexn + 'b" where
  "bind_exn m f = (case m of Inl e \<Rightarrow> Inl e | Inr x \<Rightarrow> f x)"

definition decimal_of_field :: "('f, 'z) builtins_scheme \<Rightarrow> 'f pydict \<Rightarrow> string \<Rightarrow> pyexn + decimal" where
  "decimal_of_field B fire k =
     bind_exn (dict_item fire k) (\<lambda>v. to_decimal B (py_str B v))"

definition decimal_or_zero :: "('f, 'z) builtins_scheme \<Rightarrow> 'f pydict \<Rightarrow> string \<Rightarrow> pyexn + decimal" where
  "decimal_or_zero B fire k =
     bind_exn (dict_item fire k) (\<lambda>v.
       if truthy B v then to_decimal B (py_str B v) else Inr (Decimal ''0''))"

definition build_item ::
  "('f, 'z) builtins_scheme \<Rightarrow> 'f pydict \<Rightarrow> string \<Rightarrow> nat \<Rightarrow> nat \<Rightarrow> pyexn + 'f item" where
  "build_item B fire fid ts now =
     bind_exn (decimal_of_field B fire ''latitude'') (\<lambda>lat.
     bind_exn (decimal_of_field B fire ''longitude'') (\<lambda>lon.
     bind_exn (decimal_or_zero B fire ''brightness'') (\<lambda>bri.
     bind_exn (dict_item fire ''confidence'') (\<lambda>conf.
     bind_exn (decimal_or_zero B fire ''frp'') (\<lambda>frp_d.
       Inr [(''fire_id'', AStr fid),
            (''timestamp'', ANum ts),
            (''latitude'', ADec lat),
            (''longitude'', ADec lon),
            (''brightness'', ADec bri),
            (''confidence'', AVal conf),
            (''frp'', ADec frp_d),
            (''acq_date'', AVal (dict_get fire ''acq_date'' (PStr ''''))),
            (''acq_time'', AVal (dict_get fire ''acq_time'' (PStr ''''))),
            (''satellite'', AVal (dict_get fire ''satellite'' (PStr ''''))),
            (''instrument'', AVal (dict_get fire ''instrument'' (PStr ''''))),
            (''daynight'', AVal (dict_get fire ''daynight'' (PStr ''''))),
            (''location_city'', AVal (dict_get fire ''location_city'' (PStr ''Unknown''))),
            (''location_locality'', AVal (dict_get fire ''location_locality'' (PStr ''Unknown''))),
            (''location_state'', AVal (dict_get fire ''location_state'' (PStr ''Unknown''))),
            (''location_country'', AVal (dict_get fire ''location_country'' (PStr ''Unknown''))),
            (''created_at'', ANum now)])))))"

text \<open>
  \<open>table.put_item\<close> on the table keyed by \<open>fire_id\<close>. With the condition
  \<open>attribute_not_exists(fire_id)\<close> the write is a create-if-absent and raises
  ConditionalCheckFailedException on an existing key; without it the write replaces the
  item under the key. Either may meet a store error first, and an item without a string
  under the key attribute is refused.
\<close>

definition put_item ::
  "('f, 'z) env_scheme \<Rightarrow> 'f item \<Rightarrow> bool \<Rightarrow> 'f world \<Rightarrow> (pyexn + unit) \<times> 'f world" where
  "put_item E it if_absent w =
     (let w1 = w\<lparr>puts := Suc (puts w)\<rparr> in
      case put_fault E (puts w) of
        Some msg \<Rightarrow> (Inl (ClientError msg), w1)
      | None \<Rightarrow>
         (case map_of it ''fire_id'' of
            Some (AStr k) \<Rightarrow>
              if if_absent then
                (case map_of (table w) k of
                   Some old \<Rightarrow> (Inl ConditionalCheckFailedException, w1)
                 | None \<Rightarrow> (Inr (), w1\<lparr>table := table w @ [(k, it)]\<rparr>))
              else (Inr (), w1\<lparr>table := AList.update k it (table w)\<rparr>)
          | _ \<Rightarrow> (Inl (ClientError ''ValidationException''), w1)))"

text \<open>\<open>store_fire_data\<close>, lines 206-256.\<close>

definition store_fire_data ::
  "('f, 'z) env_scheme \<Rightarrow> 'f pydict \<Rightarrow> 'f world \<Rightarrow> (pyexn + unit) \<times> 'f world" where
  "store_fire_data E fire w =
     (let ts = time_at E (reads w);
          w1 = w\<lparr>reads := Suc (reads w)\<rparr> in
      case derive_fire_id E fire ts of
        Inl e \<Rightarrow> (Inl e, w1)
      | Inr fid \<Rightarrow>
         (case build_item E fire fid ts (time_at E (reads w1)) of
            Inl e \<Rightarrow> (Inl e, w1)
          | Inr it \<Rightarrow>
             (case put_item E it True (w1\<lparr>reads := Suc (reads w1)\<rparr>) of
                (Inr u, w3) \<Rightarrow> (Inr (), w3\<lparr>store_log := store_log w3 @ [Stored fid]\<rparr>)
              | (Inl e, w3) \<Rightarrow>
                  if e = ConditionalCheckFailedException
                  then (Inr (), w3\<lparr>store_log := store_log w3 @ [Duplicate fid]\<rparr>)
                  else (Inl e, w3\<lparr>store_log := store_log w3 @ [StoreFailed fid]\<rparr>))))"

text \<open>\<open>get_bigdata_api_key\<close> and \<open>get_location_from_coordinates\<close>, lines 148-204.\<close>

definition get_bigdata_api_key :: "('f, 'z) env_scheme \<Rightarrow> string" where
  "get_bigdata_api_key E = (case secret_api_key E of Inl e \<Rightarrow> '''' | Inr k \<Rightarrow> k)"

definition unknown_location :: "'f pydict" where
  "unknown_location =
     [(''city'', PStr ''Unknown''),
      (''locality'', PStr ''Unknown''),
      (''countryName'', PStr ''Unknown''),
      (''principalSubdivision'', PStr ''Unknown'')]"

definition get_location_from_coordinates ::
  "('f, 'z) env_scheme \<Rightarrow> 'f pyval \<Rightarrow> 'f pyval \<Rightarrow> 'f world \<Rightarrow> 'f json \<times> 'f world" where
  "get_location_from_coordinates E lat lon w =
     (let key = (case api_key_cache w of None \<Rightarrow> get_bigdata_api_key E | Some k \<Rightarrow> k);
          w1 = w\<lparr>api_key_cache := Some key\<rparr> in
      case geocode E key lat lon of
        Inr location_data \<Rightarrow> (location_data, w1)
      | Inl e \<Rightarrow> (JObject unknown_location, w1))"

text \<open>
  \<open>process_fire\<close>, lines 93-146. \<open>location_data.get\<close> raises AttributeError on a reply
  that is not an object; the handler of \<open>process_fire\<close> prints and re-raises.
\<close>

definition dict_has :: "'f pydict \<Rightarrow> string \<Rightarrow> bool" where
  "dict_has d k = (map_of d k \<noteq> None)"

definition fire_record :: "'f pydict \<Rightarrow> 'f pyval \<Rightarrow> 'f pyval \<Rightarrow> 'f pydict \<Rightarrow> 'f pydict" where
  "fire_record fire lat lon location_data =
     [(''latitude'', lat),
      (''longitude'', lon),
      (''brightness'', dict_get fire ''brightness'' (PInt 0)),
      (''confidence'', dict_get fire ''confidence'' (PStr ''unknown'')),
      (''frp'', dict_get fire ''frp'' (PInt 0)),
      (''acq_date'', dict_get fire ''acq_date'' (PStr '''')),
      (''acq_time'', dict_get fire ''acq_time'' (PStr '''')),
      (''satellite'', dict_get fire ''satellite'' (PStr '''')),
      (''instrument'', dict_get fire ''instrument'' (PStr '''')),
      (''daynight'', dict_get fire ''daynight'' (PStr '''')),
      (''location_city'', dict_get location_data ''city'' (PStr ''Unknown'')),
      (''location_locality'', dict_get location_data ''locality'' (PStr ''Unknown'')),
      (''location_country'', dict_get location_data ''countryName'' (PStr ''Unknown'')),
      (''location_state'', dict_get location_data ''principalSubdivision'' (PStr ''Unknown''))]"

definition process_fire ::
  "('f, 'z) env_scheme \<Rightarrow> 'f pydict \<Rightarrow> 'f world \<Rightarrow> (pyexn + bool) \<times> 'f world" where
  "process_fire E fire w =
     (if \<not> dict_has fire ''latitude'' \<or> \<not> dict_has fire ''longitude'' then (Inr False, w)
      else
        case dict_item fire ''latitude'' of Inl e \<Rightarrow> (Inl e, w) | Inr lat \<Rightarrow>
        case dict_item fire ''longitude'' of Inl e \<Rightarrow> (Inl e, w) | Inr lon \<Rightarrow>
        case get_location_from_coordinates E lat lon w of
          (JNotObject, w1) \<Rightarrow> (Inl AttributeError, w1)
        | (JObject location_data, w1) \<Rightarrow>
            (case store_fire_data E (fire_record fire lat lon location_data) w1 of
               (Inl e, w2) \<Rightarrow> (Inl e, w2)
             | (Inr u, w2) \<Rightarrow> (Inr True, w2)))"

text \<open>
  \<open>lambda_handler\<close>, lines 25-91. A queue record carries its message id and its body;
  \<open>Inl\<close> stands for a body on which \<open>json.loads\<close> or \<open>message.get\<close> raises. Each entry of
  the error list names the fire or the queue record it belongs to. With \<open>Records\<close> and
  the message ids present, nothing reaches the outer handler that answers 500.
\<close>

record 'f message =
  fires :: "'f pydict list"
  batch_id :: string

record 'f sqs_record =
  messageId :: string
  body :: "pyexn + 'f message"

datatype 'f error_entry = FireError "'f pydict" pyexn | RecordError string pyexn

record 'f tally =
  total_processed :: nat
  total_stored :: nat
  errors :: "'f error_entry list"

fun process_batch ::
  "('f, 'z) env_scheme \<Rightarrow> 'f pydict list \<Rightarrow> 'f tally \<Rightarrow> 'f world \<Rightarrow> 'f tally \<times> 'f world" where
  "process_batch E [] t w = (t, w)"
| "process_batch E (fire # rest) t w =
     (case process_fire E fire w of
        (Inr success, w1) \<Rightarrow>
          process_batch E rest
            (t\<lparr>total_stored := (if success then Suc (total_stored t) else total_stored t),
               total_processed := Suc (total_processed t)\<rparr>) w1
      | (Inl e, w1) \<Rightarrow>
          process_batch E rest (t\<lparr>errors := errors t @ [FireError fire e]\<rparr>) w1)"

fun process_records ::
  "('f, 'z) env_scheme \<Rightarrow> 'f sqs_record list \<Rightarrow> 'f tally \<Rightarrow> 'f world \<Rightarrow> 'f tally \<times> 'f world" where
  "process_records E [] t w = (t, w)"
| "process_records E (r # rest) t w =
     (case body r of
        Inr message \<Rightarrow>
          (case process_batch E (fires message) t w of
             (t1, w1) \<Rightarrow> process_records E rest t1 w1)
      | Inl e \<Rightarrow>
          process_records E rest (t\<lparr>errors := errors t @ [RecordError (messageId r) e]\<rparr>) w)"

record 'f response =
  statusCode :: nat
  processed :: nat
  stored :: nat
  errors_count :: nat
  error_details :: "'f error_entry list"
  response_timestamp :: nat

definition lambda_handler ::
  "('f, 'z) env_scheme \<Rightarrow> 'f sqs_record list \<Rightarrow> 'f world \<Rightarrow> 'f response \<times> 'f world" where
  "lambda_handler E records w =
     (case process_records E records
             \<lparr>total_processed = 0, total_stored = 0, errors = []\<rparr> w of
        (t, w1) \<Rightarrow>
          (\<lparr> statusCode = (if errors t = [] then 200 else 207),
              processed = total_processed t,
              stored = total_stored t,
              errors_count = length (errors t),
              error_details = take 10 (errors t),
              response_timestamp = time_at E (reads w1) \<rparr>,
           w1\<lparr>reads := Suc (reads w1)\<rparr>))"

section \<open>The alternate entry point: \<open>src/lambda/lambda_function.py\<close>\<close>






record lf_result =
  coordinates :: string
  location :: string





section \<open>The Fetcher: \<open>parse_csv_data\<close> of \<open>src/lambda/fetch_fires.py\<close>\<close>

text \<open>
  \<open>str.strip()\<close> and \<open>str.split(sep)\<close> for a one-character separator. A string is
  the UTF-8 encoding of the text. \<open>strip\<close> removes the white space of Python (the
  characters on which \<open>str.isspace\<close> holds) from both ends: the code points U+0009 to
  U+000D, U+001C to U+0020, U+0085, U+00A0, U+1680, U+2000 to U+200A, U+2028, U+2029,
  U+202F, U+205F and U+3000, here in their encodings. In UTF-8 the encoding of a code
  point neither ends nor begins inside that of another, and the bytes of the separators
  (comma, line feed) occur in no other code point, so stripping these byte sequences and
  splitting at the separator bytes is what Python does on the decoded text.
\<close>

definition whitespace :: "string list" where
  "whitespace =
     [[CHR 0x09], [CHR 0x0A], [CHR 0x0B], [CHR 0x0C], [CHR 0x0D],
      [CHR 0x1C], [CHR 0x1D], [CHR 0x1E], [CHR 0x1F], [CHR 0x20],
      [CHR 0xC2, CHR 0x85], [CHR 0xC2, CHR 0xA0],
      [CHR 0xE1, CHR 0x9A, CHR 0x80],
      [CHR 0xE2, CHR 0x80, CHR 0x80], [CHR 0xE2, CHR 0x80, CHR 0x81],
      [CHR 0xE2, CHR 0x80, CHR 0x82], [CHR 0xE2, CHR 0x80, CHR 0x83],
      [CHR 0xE2, CHR 0x80, CHR 0x84], [CHR 0xE2, CHR 0x80, CHR 0x85],
      [CHR 0xE2, CHR 0x80, CHR 0x86], [CHR 0xE2, CHR 0x80, CHR 0x87],
      [CHR 0xE2, CHR 0x80, CHR 0x88], [CHR 0xE2, CHR 0x80, CHR 0x89],
      [CHR 0xE2, CHR 0x80, CHR 0x8A],
      [CHR 0xE2, CHR 0x80, CHR 0xA8], [CHR 0xE2, CHR 0x80, CHR 0xA9],
      [CHR 0xE2, CHR 0x80, CHR 0xAF],
      [CHR 0xE2, CHR 0x81, CHR 0x9F],
      [CHR 0xE3, CHR 0x80, CHR 0x80]]"

text \<open>
  \<open>leading toks s\<close> is the length of the first of the sequences \<open>toks\<close> that \<open>s\<close> begins
  with, and 0 when it begins with none; \<open>strip_leading\<close> removes such sequences as long as
  there is one.
\<close>

fun leading :: "string list \<Rightarrow> string \<Rightarrow> nat" where
  "leading [] s = 0"
| "leading (t # toks) s =
     (if t \<noteq> [] \<and> take (length t) s = t then length t else leading toks s)"

function strip_leading :: "string list \<Rightarrow> string \<Rightarrow> string" where
  "strip_leading toks s =
     (if leading toks s = 0 then s else strip_leading toks (drop (leading toks s) s))"
  by pat_completeness auto
termination
proof (relation "measure (\<lambda>(toks, s). length s)")
  show "wf (measure (\<lambda>(toks, s). length s))" by simp
next
  fix toks :: "string list" and s :: string
  assume pos: "leading toks s \<noteq> 0"
  have le: "leading ts s \<le> length s" for ts
  proof (induction ts)
    case Nil
    then show ?case by simp
  next
    case (Cons t ts)
    have "length t \<le> length s" if h: "take (length t) s = t"
    proof -
      have "length (take (length t) s) = length t" using h by simp
      then show ?thesis by simp
    qed
    then show ?case using Cons by auto
  qed
  show "((toks, drop (leading toks s) s), (toks, s)) \<in> measure (\<lambda>(toks, s). length s)"
    using pos le [of toks] by simp
qed

declare strip_leading.simps [simp del]

definition py_strip :: "string \<Rightarrow> string" where
  "py_strip s =
     rev (strip_leading (map rev whitespace) (rev (strip_leading whitespace s)))"

fun split_on :: "char \<Rightarrow> string \<Rightarrow> string list" where
  "split_on sep [] = [[]]"
| "split_on sep (c # cs) =
     (if c = sep then [] # split_on sep cs
      else case split_on sep cs of
             [] \<Rightarrow> [[c]]
           | p # ps \<Rightarrow> (c # p) # ps)"

text \<open>
  \<open>dict(zip(header, values))\<close>: of two columns of the same name the later one stays.
\<close>

definition zip_dict :: "string list \<Rightarrow> string list \<Rightarrow> (string \<times> string) list" where
  "zip_dict header vals = rev (zip header vals)"

text \<open>
  \<open>float(fire.get(k, 0))\<close>: the column's text parsed, ValueError when it does not parse,
  \<open>float(0)\<close> when the header has no such column.
\<close>

definition float_column ::
  "('f, 'z) builtins_scheme \<Rightarrow> (string \<times> string) list \<Rightarrow> string \<Rightarrow> pyexn + 'f pyval" where
  "float_column B fire k =
     (case map_of fire k of
        None \<Rightarrow> Inr (PFloat (float_of_int B 0))
      | Some s \<Rightarrow>
         (case float_of_str B s of
            None \<Rightarrow> Inl (ValueError s)
          | Some x \<Rightarrow> Inr (PFloat x)))"

definition text_column :: "(string \<times> string) list \<Rightarrow> string \<Rightarrow> string \<Rightarrow> 'f pyval" where
  "text_column fire k dflt = (case map_of fire k of None \<Rightarrow> PStr dflt | Some s \<Rightarrow> PStr s)"

definition csv_fire_record ::
  "('f, 'z) builtins_scheme \<Rightarrow> (string \<times> string) list \<Rightarrow> pyexn + 'f pydict" where
  "csv_fire_record B fire =
     bind_exn (float_column B fire ''latitude'') (\<lambda>lat.
     bind_exn (float_column B fire ''longitude'') (\<lambda>lon.
     bind_exn (float_column B fire ''brightness'') (\<lambda>bri.
     bind_exn (float_column B fire ''frp'') (\<lambda>frp_v.
       Inr [(''latitude'', lat),
            (''longitude'', lon),
            (''brightness'', bri),
            (''confidence'', text_column fire ''confidence'' ''unknown''),
            (''frp'', frp_v),
            (''acq_date'', text_column fire ''acq_date'' ''''),
            (''acq_time'', text_column fire ''acq_time'' ''''),
            (''satellite'', text_column fire ''satellite'' ''''),
            (''instrument'', text_column fire ''instrument'' ''''),
            (''daynight'', text_column fire ''daynight'' '''')]))))"

text \<open>The loop over the data rows, lines 146-172, with the list \<open>fires\<close> it appends to.\<close>

fun parse_rows ::
  "('f, 'z) builtins_scheme \<Rightarrow> string list \<Rightarrow> string list \<Rightarrow> 'f pydict list \<Rightarrow> 'f pydict list" where
  "parse_rows B header [] fires_acc = fires_acc"
| "parse_rows B header (line # rest) fires_acc =
     (let vals = split_on CHR '','' line in
      if length vals < length header then parse_rows B header rest fires_acc
      else case csv_fire_record B (zip_dict header vals) of
             Inr rec \<Rightarrow> parse_rows B header rest (fires_acc @ [rec])
           | Inl e \<Rightarrow> parse_rows B header rest fires_acc)"

definition parse_csv_data :: "('f, 'z) builtins_scheme \<Rightarrow> string \<Rightarrow> 'f pydict list" where
  "parse_csv_data B csv_data =
     (case split_on CHR 0x0A (py_strip csv_data) of
        header_line # row # rows \<Rightarrow>
          parse_rows B (split_on CHR '','' header_line) (row # rows) []
      | _ \<Rightarrow> [])"

text \<open>
  The row filter in the words of the specification: a row is valid when it is not shorter
  than the header and each of its numeric columns parses; \<open>csv_record\<close> is the detection
  a valid row yields, a column the header does not have taking its default.
\<close>

definition column :: "string list \<Rightarrow> string \<Rightarrow> string \<Rightarrow> string option" where
  "column header line k = map_of (rev (zip header (split_on CHR '','' line))) k"

definition numeric_ok :: "('f, 'z) builtins_scheme \<Rightarrow> string list \<Rightarrow> string \<Rightarrow> string \<Rightarrow> bool" where
  "numeric_ok B header line k =
     (case column header line k of None \<Rightarrow> True | Some s \<Rightarrow> float_of_str B s \<noteq> None)"

definition row_valid :: "('f, 'z) builtins_scheme \<Rightarrow> string list \<Rightarrow> string \<Rightarrow> bool" where
  "row_valid B header line =
     (length header \<le> length (split_on CHR '','' line) \<and>
      numeric_ok B header line ''latitude'' \<and>
      numeric_ok B header line ''longitude'' \<and>
      numeric_ok B header line ''brightness'' \<and>
      numeric_ok B header line ''frp'')"

definition numeric_value :: "('f, 'z) builtins_scheme \<Rightarrow> string list \<Rightarrow> string \<Rightarrow> string \<Rightarrow> 'f pyval" where
  "numeric_value B header line k =
     (case column header line k of
        None \<Rightarrow> PFloat (float_of_int B 0)
      | Some s \<Rightarrow> (case float_of_str B s of None \<Rightarrow> PNone | Some x \<Rightarrow> PFloat x))"

definition text_value :: "string list \<Rightarrow> string \<Rightarrow> string \<Rightarrow> string \<Rightarrow> 'f pyval" where
  "text_value header line k dflt =
     (case column header line k of None \<Rightarrow> PStr dflt | Some s \<Rightarrow> PStr s)"

definition csv_record :: "('f, 'z) builtins_scheme \<Rightarrow> string list \<Rightarrow> string \<Rightarrow> 'f pydict" where
  "csv_record B header line =
     [(''latitude'', numeric_value B header line ''latitude''),
      (''longitude'', numeric_value B header line ''longitude''),
      (''brightness'', numeric_value B header line ''brightness''),
      (''confidence'', text_value header line ''confidence'' ''unknown''),
      (''frp'', numeric_value B header line ''frp''),
      (''acq_date'', text_value header line ''acq_date'' ''''),
      (''acq_time'', text_value header line ''acq_time'' ''''),
      (''satellite'', text_value header line ''satellite'' ''''),
      (''instrument'', text_value header line ''instrument'' ''''),
      (''daynight'', text_value header line ''daynight'' '''')]"

section \<open>The Change Notifier: \<open>src/lambda/stream_processor.py\<close>\<close>

text \<open>
  An image of a stream record maps an attribute name to its typed value, itself a
  dictionary from the type tag (\<open>S\<close>, \<open>N\<close>) to the text of the value.
\<close>

type_synonym image = "(string \<times> (string \<times> string) list) list"

definition attr_S :: "image \<Rightarrow> string \<Rightarrow> string \<Rightarrow> 'f pyval" where
  "attr_S im k dflt =
     (case map_of (case map_of im k of None \<Rightarrow> [] | Some a \<Rightarrow> a) ''S'' of
        None \<Rightarrow> PStr dflt
      | Some s \<Rightarrow> PStr s)"

definition attr_N :: "('f, 'z) builtins_scheme \<Rightarrow> image \<Rightarrow> string \<Rightarrow> pyexn + 'f pyval" where
  "attr_N B im k =
     (case map_of (case map_of im k of None \<Rightarrow> [] | Some a \<Rightarrow> a) ''N'' of
        None \<Rightarrow> Inr (PFloat (float_of_int B 0))
      | Some s \<Rightarrow>
         (case float_of_str B s of
            None \<Rightarrow> Inl (ValueError s)
          | Some x \<Rightarrow> Inr (PFloat x)))"

text \<open>\<open>parse_dynamodb_item\<close>, lines 87-115: any exception gives the empty dictionary.\<close>

definition parse_dynamodb_item :: "('f, 'z) builtins_scheme \<Rightarrow> image \<Rightarrow> 'f pydict" where
  "parse_dynamodb_item B im =
     (case
        bind_exn (attr_N B im ''latitude'') (\<lambda>lat.
        bind_exn (attr_N B im ''longitude'') (\<lambda>lon.
        bind_exn (attr_N B im ''brightness'') (\<lambda>bri.
        bind_exn (attr_N B im ''frp'') (\<lambda>frp_v.
          Inr [(''fire_id'', attr_S im ''fire_id'' ''''),
               (''latitude'', lat),
               (''longitude'', lon),
               (''brightness'', bri),
               (''confidence'', attr_S im ''confidence'' ''unknown''),
               (''frp'', frp_v),
               (''location_city'', attr_S im ''location_city'' ''Unknown''),
               (''location_state'', attr_S im ''location_state'' ''Unknown''),
               (''location_country'', attr_S im ''location_country'' ''Unknown''),
               (''satellite'', attr_S im ''satellite'' ''''),
               (''acq_date'', attr_S im ''acq_date'' ''''),
               (''acq_time'', attr_S im ''acq_time'' '''')]))))
      of Inl e \<Rightarrow> [] | Inr fire \<Rightarrow> fire)"

text \<open>
  The collaborators of the Notifier: \<open>sns_publish\<close> answers a publish request with the
  message id or raises; \<open>detection_time\<close> is the clock as \<open>send_fire_alerts\<close> prints it.
  The state is the list of the requests handed to \<open>sns.publish\<close>.
\<close>

record publish_request =
  subject :: string
  message :: string
  fire_count :: string
  countries :: "string list"

record 'f notifier_env = "'f builtins" +
  sns_publish :: "publish_request \<Rightarrow> pyexn + string"
  detection_time :: string

record sns_world =
  sns_calls :: "publish_request list"

text \<open>The characters outside ASCII of the message, in UTF-8.\<close>

definition fire_sign :: string where
  "fire_sign = [CHR 0xF0, CHR 0x9F, CHR 0x94, CHR 0xA5]"

definition pin_sign :: string where
  "pin_sign = [CHR 0xF0, CHR 0x9F, CHR 0x93, CHR 0x8D]"

definition bullet_sign :: string where
  "bullet_sign = [CHR 0xE2, CHR 0x80, CHR 0xA2]"

definition rule_line :: string where
  "rule_line = concat (replicate 21 [CHR 0xE2, CHR 0x94, CHR 0x80])"

text \<open>
  \<open>send_fire_alerts\<close>, lines 117-202. The country of a fire is the text under
  \<open>location_country\<close>, which \<open>parse_dynamodb_item\<close> always makes a string.
\<close>

definition country_of :: "('f, 'z) builtins_scheme \<Rightarrow> 'f pydict \<Rightarrow> string" where
  "country_of B fire = py_str B (dict_get fire ''location_country'' (PStr ''Unknown''))"

fun fires_by_country ::
  "('f, 'z) builtins_scheme \<Rightarrow> 'f pydict list \<Rightarrow> (string \<times> 'f pydict list) list \<Rightarrow>
     (string \<times> 'f pydict list) list" where
  "fires_by_country B [] groups = groups"
| "fires_by_country B (fire # rest) groups =
     (let country = country_of B fire;
          groups1 = (if map_of groups country = None then groups @ [(country, [])] else groups)
      in fires_by_country B rest (AList.map_entry country (\<lambda>fs. fs @ [fire]) groups1))"

definition detail_lines :: "('f, 'z) builtins_scheme \<Rightarrow> 'f pydict \<Rightarrow> string list" where
  "detail_lines B fire =
     (let location = py_str B (dict_get fire ''location_city'' (PStr ''Unknown'')) @ '', '' @
                     py_str B (dict_get fire ''location_state'' (PStr ''Unknown''));
          coords = ''('' @ format_fixed B 4 (dict_get fire ''latitude'' (PInt 0)) @ '', '' @
                   format_fixed B 4 (dict_get fire ''longitude'' (PInt 0)) @ '')'';
          conf = py_str B (dict_get fire ''confidence'' (PStr ''unknown''));
          frp_v = dict_get fire ''frp'' (PInt 0)
      in [''  '' @ bullet_sign @ '' '' @ location @ '' '' @ coords,
          ''    Confidence: '' @ conf @ '', FRP: '' @ format_fixed B 1 frp_v @ '' MW''])"

fun add_fire_details ::
  "('f, 'z) builtins_scheme \<Rightarrow> 'f pydict list \<Rightarrow> string list \<Rightarrow> string list" where
  "add_fire_details B [] message_lines = message_lines"
| "add_fire_details B (fire # rest) message_lines =
     add_fire_details B rest (message_lines @ detail_lines B fire)"

fun add_country_breakdown ::
  "('f, 'z) builtins_scheme \<Rightarrow> (string \<times> 'f pydict list) list \<Rightarrow> string list \<Rightarrow> string list" where
  "add_country_breakdown B [] message_lines = message_lines"
| "add_country_breakdown B ((country, country_fires) # rest) message_lines =
     (let lines1 = message_lines @
                     ['''',
                      pin_sign @ '' '' @ country @ '': '' @ str_nat (length country_fires) @
                        '' fire(s)''];
          lines2 = add_fire_details B (take 5 country_fires) lines1;
          lines3 = (if length country_fires > 5
                    then lines2 @ [''  ... and '' @ str_nat (length country_fires - 5) @ '' more'']
                    else lines2)
      in add_country_breakdown B rest lines3)"

definition alert_lines :: "('f, 'z) notifier_env_scheme \<Rightarrow> 'f pydict list \<Rightarrow> string list" where
  "alert_lines N fires_in =
     (let groups = fires_by_country N fires_in [];
          total_fires = length fires_in;
          lines0 = [''Firewatch has detected '' @ str_nat total_fires @ '' new active fire(s).'',
                    '''',
                    ''Summary by Country:'',
                    rule_line];
          lines1 = add_country_breakdown N (sort_key fst groups) lines0
      in lines1 @
           ['''',
            rule_line,
            ''Detection time: '' @ detection_time N,
            '''',
            ''This is an automated alert from Firewatch.''])"

fun join_lines :: "string list \<Rightarrow> string" where
  "join_lines [] = []"
| "join_lines [l] = l"
| "join_lines (l # ls) = l @ [CHR 0x0A] @ join_lines ls"

definition alert_request :: "('f, 'z) notifier_env_scheme \<Rightarrow> 'f pydict list \<Rightarrow> publish_request" where
  "alert_request N fires_in =
     \<lparr> subject = fire_sign @ '' Firewatch Alert: '' @ str_nat (length fires_in) @
                   '' New Fire(s) Detected'',
       message = join_lines (alert_lines N fires_in),
       fire_count = str_nat (length fires_in),
       countries = map fst (fires_by_country N fires_in []) \<rparr>"

definition send_fire_alerts ::
  "('f, 'z) notifier_env_scheme \<Rightarrow> 'f pydict list \<Rightarrow> sns_world \<Rightarrow> (pyexn + unit) \<times> sns_world" where
  "send_fire_alerts N fires_in w =
     (let request = alert_request N fires_in;
          w1 = w\<lparr>sns_calls := sns_calls w @ [request]\<rparr> in
      case sns_publish N request of
        Inl e \<Rightarrow> (Inl e, w1)
      | Inr message_id \<Rightarrow> (Inr (), w1))"

text \<open>
  \<open>lambda_handler\<close>, lines 15-85, under the name \<open>sp_lambda_handler\<close>. A stream record
  may lack an image; \<open>record['dynamodb']['NewImage']\<close> then raises KeyError. The outcome
  of an invocation is an exception or a returned result; the result is the summary with
  status 200 or the error with status 500.
\<close>

record stream_record =
  eventName :: string
  NewImage :: "image option"
  OldImage :: "image option"

record 'f fire_lists =
  new_fires :: "'f pydict list"
  updated_fires :: "'f pydict list"
  removed_fires :: "'f pydict list"

fun classify_records ::
  "('f, 'z) builtins_scheme \<Rightarrow> stream_record list \<Rightarrow> 'f fire_lists \<Rightarrow> pyexn + 'f fire_lists" where
  "classify_records B [] ls = Inr ls"
| "classify_records B (r # rest) ls =
     (if eventName r = ''INSERT'' then
        (case NewImage r of
           None \<Rightarrow> Inl (KeyError ''NewImage'')
         | Some im \<Rightarrow>
             classify_records B rest (ls\<lparr>new_fires := new_fires ls @ [parse_dynamodb_item B im]\<rparr>))
      else if eventName r = ''MODIFY'' then
        (case NewImage r of
           None \<Rightarrow> Inl (KeyError ''NewImage'')
         | Some im \<Rightarrow>
             classify_records B rest
               (ls\<lparr>updated_fires := updated_fires ls @ [parse_dynamodb_item B im]\<rparr>))
      else if eventName r = ''REMOVE'' then
        (case OldImage r of
           None \<Rightarrow> Inl (KeyError ''OldImage'')
         | Some im \<Rightarrow>
             classify_records B rest
               (ls\<lparr>removed_fires := removed_fires ls @ [parse_dynamodb_item B im]\<rparr>))
      else classify_records B rest ls)"

datatype sp_response = SpComplete nat nat nat | SpError pyexn

fun sp_status :: "sp_response \<Rightarrow> nat" where
  "sp_status (SpComplete n u r) = 200"
| "sp_status (SpError e) = 500"

definition sp_lambda_handler ::
  "('f, 'z) notifier_env_scheme \<Rightarrow> stream_record list \<Rightarrow> sns_world \<Rightarrow>
     (pyexn + sp_response) \<times> sns_world" where
  "sp_lambda_handler N records w =
     (case classify_records N records \<lparr>new_fires = [], updated_fires = [], removed_fires = []\<rparr> of
        Inl e \<Rightarrow> (Inr (SpError e), w)
      | Inr ls \<Rightarrow>
         (case (if new_fires ls \<noteq> [] then send_fire_alerts N (new_fires ls) w else (Inr (), w)) of
            (Inl e, w1) \<Rightarrow> (Inr (SpError e), w1)
          | (Inr u, w1) \<Rightarrow>
              (Inr (SpComplete (length (new_fires ls)) (length (updated_fires ls))
                      (length (removed_fires ls))), w1)))"



section \<open>An instance of the built-ins for evaluating examples\<close>

text \<open>
  In the examples a float with an integral value is represented by that integer:
  \<open>str(34.0)\<close> is \<open>34.0\<close>, \<open>float("34.0")\<close> and \<open>float("34")\<close> are \<open>34.0\<close>,
  \<open>float("abc")\<close> raises, \<open>f"{34.0:.4f}"\<close> is \<open>34.0000\<close>, and \<open>Decimal\<close> accepts a
  plain decimal numeral. The examples use no other numbers.
\<close>

fun nat_of_digits :: "string \<Rightarrow> nat \<Rightarrow> nat option" where
  "nat_of_digits [] acc = Some acc"
| "nat_of_digits (c # cs) acc =
     (if c \<in> set ''0123456789'' then nat_of_digits cs (10 * acc + (of_char c - 48)) else None)"

definition int_of_str :: "string \<Rightarrow> int option" where
  "int_of_str s =
     (case s of
        [] \<Rightarrow> None
      | c # cs \<Rightarrow>
          if c = CHR ''-''
          then (if cs = [] then None else map_option (\<lambda>n. - int n) (nat_of_digits cs 0))
          else map_option int (nat_of_digits s 0))"

definition example_decimal_ok :: "string \<Rightarrow> bool" where
  "example_decimal_ok s =
     (int_of_str (takeWhile (\<lambda>c. c \<noteq> CHR ''.'') s) \<noteq> None \<and>
      (case dropWhile (\<lambda>c. c \<noteq> CHR ''.'') s of
         [] \<Rightarrow> True
       | d # ds \<Rightarrow> nat_of_digits ds 0 \<noteq> None))"

definition example_float :: "string \<Rightarrow> int option" where
  "example_float s =
     (if dropWhile (\<lambda>c. c \<noteq> CHR ''.'') s = [] \<or> dropWhile (\<lambda>c. c \<noteq> CHR ''.'') s = ''.0''
      then int_of_str (takeWhile (\<lambda>c. c \<noteq> CHR ''.'') s)
      else None)"

definition example_format :: "nat \<Rightarrow> int pyval \<Rightarrow> string" where
  "example_format n v =
     (case v of
        PInt i \<Rightarrow> str_int i @ ''.'' @ replicate n CHR ''0''
      | PFloat i \<Rightarrow> str_int i @ ''.'' @ replicate n CHR ''0''
      | _ \<Rightarrow> [])"

definition example_builtins :: "int builtins" where
  "example_builtins =
     \<lparr> float_str = (\<lambda>i. str_int i @ ''.0''),
       float_is_zero = (\<lambda>i. i = 0),
       decimal_ok = example_decimal_ok,
       float_of_str = example_float,
       float_of_int = (\<lambda>i. i),
       format_fixed = example_format \<rparr>"

section \<open>Notions used in the statements\<close>

text \<open>
  The credential a lookup uses: the cached one, or the one read on the first lookup.
  \<open>attempted_key E k fire\<close> is the key under which the Processor attempts the write of
  \<open>fire\<close> when the acquisition fields decide the key, and \<open>None\<close> when the record does
  not reach \<open>put_item\<close> (no coordinates, a reply that is not an object, a failing
  conversion).
\<close>

definition effective_key :: "('f, 'z) env_scheme \<Rightarrow> 'f world \<Rightarrow> string" where
  "effective_key E w = (case api_key_cache w of None \<Rightarrow> get_bigdata_api_key E | Some k \<Rightarrow> k)"

definition attempted_key :: "('f, 'z) env_scheme \<Rightarrow> string \<Rightarrow> 'f pydict \<Rightarrow> string option" where
  "attempted_key E k fire =
     (case map_of fire ''latitude'' of None \<Rightarrow> None | Some lat \<Rightarrow>
      case map_of fire ''longitude'' of None \<Rightarrow> None | Some lon \<Rightarrow>
      case (case geocode E k lat lon of Inr d \<Rightarrow> d | Inl e \<Rightarrow> JObject unknown_location) of
        JNotObject \<Rightarrow> None
      | JObject location_data \<Rightarrow>
         (case derive_fire_id E (fire_record fire lat lon location_data) 0 of
            Inl e \<Rightarrow> None
          | Inr fid \<Rightarrow>
             (case build_item E (fire_record fire lat lon location_data) fid 0 0 of
                Inl e \<Rightarrow> None
              | Inr it \<Rightarrow> Some fid)))"

definition all_fires :: "'f sqs_record list \<Rightarrow> 'f pydict list" where
  "all_fires records =
     concat (map (\<lambda>r. case body r of Inl e \<Rightarrow> [] | Inr m \<Rightarrow> fires m) records)"

definition deliver :: "('f, 'z) env_scheme \<Rightarrow> 'f sqs_record list \<Rightarrow> 'f world \<Rightarrow> 'f world" where
  "deliver E records w = snd (lambda_handler E records w)"


definition attempted_keys :: "('f, 'z) env_scheme \<Rightarrow> string \<Rightarrow> 'f pydict list \<Rightarrow> string set" where
  "attempted_keys E k fs = {x. \<exists>f \<in> set fs. attempted_key E k f = Some x}"


text \<open>
  The collaborators of the examples: a clock that advances one second per reading from
  1700000000, a store without faults, and a geocode service that times out.
\<close>

definition example_env :: "int env" where
  "example_env =
     \<lparr> float_str = (\<lambda>i. str_int i @ ''.0''),
       float_is_zero = (\<lambda>i. i = 0),
       decimal_ok = example_decimal_ok,
       float_of_str = example_float,
       float_of_int = (\<lambda>i. i),
       format_fixed = example_format,
       time_at = (\<lambda>n. 1700000000 + n),
       put_fault = (\<lambda>n. None),
       secret_api_key = Inr ''bdc-key'',
       environ_api_key = Some ''bdc-key'',
       geocode = (\<lambda>k lat lon. Inl (URLError ''timed out'')) \<rparr>"

definition empty_world :: "int world" where
  "empty_world = \<lparr> table = [], api_key_cache = None, reads = 0, puts = 0, store_log = [] \<rparr>"

definition fire_a :: "int pydict" where
  "fire_a =
     [(''latitude'', PFloat 34), (''longitude'', PFloat (- 118)),
      (''brightness'', PFloat 330), (''confidence'', PStr ''n''), (''frp'', PFloat 12),
      (''acq_date'', PStr ''2024-01-15''), (''acq_time'', PStr ''0412''),
      (''satellite'', PStr ''N''), (''instrument'', PStr ''VIIRS''), (''daynight'', PStr ''N'')]"


definition delivery_of :: "int pydict list \<Rightarrow> int sqs_record list" where
  "delivery_of fs =
     [\<lparr> messageId = ''m-1'', body = Inr \<lparr> fires = fs, batch_id = ''batch_0'' \<rparr> \<rparr>]"

text \<open>
  Counting the store outcomes: a write is completed when \<open>store_fire_data\<close> returns (the
  item was inserted or skipped as a duplicate), and inserted when the item was created.
  \<open>bad_bodies\<close> counts the queue records whose body cannot be read.
\<close>

fun completed :: "store_event \<Rightarrow> bool" where
  "completed (Stored k) = True"
| "completed (Duplicate k) = True"
| "completed (StoreFailed k) = False"

fun inserted :: "store_event \<Rightarrow> bool" where
  "inserted (Stored k) = True"
| "inserted (Duplicate k) = False"
| "inserted (StoreFailed k) = False"

definition completed_count :: "'f world \<Rightarrow> nat" where
  "completed_count w = length (filter completed (store_log w))"

definition inserted_count :: "'f world \<Rightarrow> nat" where
  "inserted_count w = length (filter inserted (store_log w))"

definition bad_bodies :: "'f sqs_record list \<Rightarrow> nat" where
  "bad_bodies records =
     length (filter (\<lambda>r. case body r of Inl e \<Rightarrow> True | Inr m \<Rightarrow> False) records)"

text \<open>
  Ten detections at latitudes 1 to 9 and 1 again, and a store whose third and sixth
  write fail.
\<close>

definition fire_at :: "int \<Rightarrow> int pydict" where
  "fire_at i =
     [(''latitude'', PFloat i), (''longitude'', PFloat (- 118)),
      (''brightness'', PFloat 330), (''confidence'', PStr ''n''), (''frp'', PFloat 12),
      (''acq_date'', PStr ''2024-01-15''), (''acq_time'', PStr ''0412'')]"

definition faulty_env :: "int env" where
  "faulty_env =
     example_env\<lparr>put_fault :=
       (\<lambda>n. if n = 2 \<or> n = 5 then Some ''ProvisionedThroughputExceededException'' else None)\<rparr>"

text \<open>Two feed responses: one with a row whose latitude does not parse, one without a latitude column.\<close>

definition example_csv :: string where
  "example_csv =
     join_lines
       [''latitude,longitude,brightness,frp,acq_date,acq_time'',
        ''34.0,-118.0,330.0,12.0,2024-01-15,0412'',
        ''abc,-118.0,330.0,12.0,2024-01-15,0412'',
        ''35.0,-117.0,331.0,13.0,2024-01-15,0413'',
        ''36.0,-116.0,332.0,14.0,2024-01-15,0414'']"

definition csv_without_latitude :: string where
  "csv_without_latitude = join_lines [''longitude,brightness'', ''-118.0,330.0'']"

text \<open>A geocode service whose reply parses, but not to an object (\<open>null\<close>, a list, a string).\<close>

definition non_object_env :: "int env" where
  "non_object_env = example_env\<lparr>geocode := (\<lambda>k lat lon. Inr JNotObject)\<rparr>"

text \<open>
  The examples of the Notifier: a topic that accepts every publish request and one that
  refuses every request, images of stored records, and the stream records that carry
  them.
\<close>

definition example_notifier :: "int notifier_env" where
  "example_notifier =
     \<lparr> float_str = (\<lambda>i. str_int i @ ''.0''),
       float_is_zero = (\<lambda>i. i = 0),
       decimal_ok = example_decimal_ok,
       float_of_str = example_float,
       float_of_int = (\<lambda>i. i),
       format_fixed = example_format,
       sns_publish = (\<lambda>request. Inr ''message-1''),
       detection_time = ''2024-01-15 04:30:00 UTC'' \<rparr>"

definition failing_notifier :: "int notifier_env" where
  "failing_notifier =
     example_notifier\<lparr>sns_publish := (\<lambda>request. Inl (ClientError ''AuthorizationError''))\<rparr>"

definition fire_image :: "string \<Rightarrow> string \<Rightarrow> string \<Rightarrow> image" where
  "fire_image fid city country =
     [(''fire_id'', [(''S'', fid)]),
      (''latitude'', [(''N'', ''34'')]),
      (''longitude'', [(''N'', ''-118'')]),
      (''brightness'', [(''N'', ''330'')]),
      (''confidence'', [(''S'', ''n'')]),
      (''frp'', [(''N'', ''12'')]),
      (''location_city'', [(''S'', city)]),
      (''location_state'', [(''S'', ''State'')]),
      (''location_country'', [(''S'', country)]),
      (''satellite'', [(''S'', ''N'')]),
      (''acq_date'', [(''S'', ''2024-01-15'')]),
      (''acq_time'', [(''S'', ''0412'')])]"

definition insert_record :: "image \<Rightarrow> stream_record" where
  "insert_record im = \<lparr>eventName = ''INSERT'', NewImage = Some im, OldImage = None\<rparr>"

definition modify_record :: "image \<Rightarrow> image \<Rightarrow> stream_record" where
  "modify_record old new = \<lparr>eventName = ''MODIFY'', NewImage = Some new, OldImage = Some old\<rparr>"

definition remove_record :: "image \<Rightarrow> stream_record" where
  "remove_record im = \<lparr>eventName = ''REMOVE'', NewImage = None, OldImage = Some im\<rparr>"

definition no_calls :: sns_world where
  "no_calls = \<lparr>sns_calls = []\<rparr>"

text \<open>The number of records of a delivery with a given event name.\<close>

definition count_events :: "string \<Rightarrow> stream_record list \<Rightarrow> nat" where
  "count_events name records = length (filter (\<lambda>r. eventName r = name) records)"

text \<open>Every MODIFY record carries its new image and every REMOVE record its old image.\<close>

definition carries_image :: "stream_record \<Rightarrow> bool" where
  "carries_image r =
     ((eventName r = ''MODIFY'' \<longrightarrow> NewImage r \<noteq> None) \<and>
      (eventName r = ''REMOVE'' \<longrightarrow> OldImage r \<noteq> None))"

text \<open>
  Two deliveries of INSERT events: five fires in Mexico and two in the USA, the first of
  them in the USA, and six fires in Mexico.
\<close>

definition seven_images :: "image list" where
  "seven_images =
     [fire_image ''u1'' ''Yuma'' ''USA'',
      fire_image ''m1'' ''Tijuana'' ''Mexico'',
      fire_image ''m2'' ''Mexicali'' ''Mexico'',
      fire_image ''u2'' ''Reno'' ''USA'',
      fire_image ''m3'' ''Ensenada'' ''Mexico'',
      fire_image ''m4'' ''Tecate'' ''Mexico'',
      fire_image ''m5'' ''Rosarito'' ''Mexico'']"

definition six_images :: "image list" where
  "six_images =
     [fire_image ''m1'' ''Tijuana'' ''Mexico'',
      fire_image ''m2'' ''Mexicali'' ''Mexico'',
      fire_image ''m3'' ''Ensenada'' ''Mexico'',
      fire_image ''m4'' ''Tecate'' ''Mexico'',
      fire_image ''m5'' ''Rosarito'' ''Mexico'',
      fire_image ''m6'' ''Loreto'' ''Mexico'']"

text \<open>The fire that \<open>parse_dynamodb_item\<close> reads from \<open>fire_image\<close>.\<close>

definition example_fire :: "string \<Rightarrow> string \<Rightarrow> string \<Rightarrow> int pydict" where
  "example_fire fid city country =
     [(''fire_id'', PStr fid), (''latitude'', PFloat 34), (''longitude'', PFloat (- 118)),
      (''brightness'', PFloat 330), (''confidence'', PStr ''n''), (''frp'', PFloat 12),
      (''location_city'', PStr city), (''location_state'', PStr ''State''),
      (''location_country'', PStr country), (''satellite'', PStr ''N''),
      (''acq_date'', PStr ''2024-01-15''), (''acq_time'', PStr ''0412'')]"

section \<open>Properties\<close>

subsection \<open>Evaluation of the built-ins on examples\<close>

lemma str_nat_numeral [simp]:
  "str_nat (numeral k) =
     (if (numeral k :: nat) < 10 then [digit_char (numeral k)]
      else str_nat (numeral k div 10) @ [digit_char (numeral k mod 10)])"
  by (subst str_nat.simps) simp

lemma str_nat_0 [simp]: "str_nat 0 = ''0''"
  by (subst str_nat.simps) (simp add: digit_char_def)

lemma str_nat_1 [simp]: "str_nat (Suc 0) = ''1''"
  by (subst str_nat.simps) (simp add: digit_char_def)

lemma example_builtins_sel [simp]:
  "float_str example_builtins = (\<lambda>i. str_int i @ ''.0'')"
  "float_is_zero example_builtins = (\<lambda>i. i = 0)"
  "decimal_ok example_builtins = example_decimal_ok"
  "float_of_str example_builtins = example_float"
  "float_of_int example_builtins = (\<lambda>i. i)"
  "format_fixed example_builtins = example_format"
  by (simp_all add: example_builtins_def)


subsection \<open>The identity key\<close>

lemma acq_datetime_underscore:
  "acq_datetime B fire = ''_'' \<longleftrightarrow>
     py_str B (dict_get fire ''acq_date'' (PStr '''')) = [] \<and>
     py_str B (dict_get fire ''acq_time'' (PStr '''')) = []"
  unfolding acq_datetime_def
  by (cases "py_str B (dict_get fire ''acq_date'' (PStr ''''))") (auto simp: append_eq_Cons_conv)

text \<open>
  C2: \<open>store_fire_data\<close> derives the key from the acquisition date and time exactly when
  both are present and non-empty, and from the ingest timestamp whenever either is
  absent or empty. The comment at the branch reads "Fallback to current timestamp if no
  acquisition time", but the test \<open>acq_datetime == "_"\<close> holds only when the date and the
  time are both empty: a detection with a date and an empty time does not fall back. It
  is keyed by \<open>lat_lon_date_\<close>, not by \<open>lat_lon_timestamp\<close>.
\<close>

theorem fire_id_without_time_not_fallback:
  "derive_fire_id example_builtins
     [(''latitude'', PInt 10), (''longitude'', PInt 20),
      (''acq_date'', PStr ''2024-01-15''), (''acq_time'', PStr '''')] 1700000000
   = Inr ''10_20_2024-01-15_''
   \<and> derive_fire_id example_builtins
     [(''latitude'', PInt 10), (''longitude'', PInt 20),
      (''acq_date'', PStr ''2024-01-15''), (''acq_time'', PStr '''')] 1700000000
   \<noteq> Inr (''10_20_'' @ str_nat 1700000000)"
  by (simp add: derive_fire_id_def dict_item_def acq_datetime_def dict_get_def str_int_def
      digit_char_def)

text \<open>
  What the code computes for a record with coordinates: the key ends in the ingest
  timestamp only when the renderings of the acquisition date and time are both empty,
  and in the two renderings otherwise; in the latter case the key does not depend on
  the timestamp.
\<close>

lemma derive_fire_id_computed:
  assumes "map_of fire ''latitude'' = Some lat"
    and "map_of fire ''longitude'' = Some lon"
  shows "derive_fire_id B fire ts =
           Inr (py_str B lat @ ''_'' @ py_str B lon @ ''_'' @
                (if py_str B (dict_get fire ''acq_date'' (PStr '''')) = [] \<and>
                    py_str B (dict_get fire ''acq_time'' (PStr '''')) = []
                 then str_nat ts
                 else py_str B (dict_get fire ''acq_date'' (PStr '''')) @ ''_'' @
                      py_str B (dict_get fire ''acq_time'' (PStr ''''))))
         \<and> (\<not> (py_str B (dict_get fire ''acq_date'' (PStr '''')) = [] \<and>
                 py_str B (dict_get fire ''acq_time'' (PStr '''')) = [])
              \<longrightarrow> derive_fire_id B fire ts' = derive_fire_id B fire ts)"
  using assms acq_datetime_underscore [of B fire]
  by (simp add: derive_fire_id_def dict_item_def acq_datetime_def)

lemma derive_fire_id_examples:
  "derive_fire_id example_builtins
     [(''latitude'', PInt 10), (''longitude'', PInt (- 20)),
      (''acq_date'', PStr ''2024-01-15''), (''acq_time'', PStr ''0412'')] 1700000000
   = Inr ''10_-20_2024-01-15_0412''
   \<and> derive_fire_id example_builtins
     [(''latitude'', PInt 10), (''longitude'', PInt (- 20)),
      (''acq_date'', PStr ''2024-01-15''), (''acq_time'', PStr ''0412'')] 1700000777
   = Inr ''10_-20_2024-01-15_0412''
   \<and> derive_fire_id example_builtins
     [(''latitude'', PInt 10), (''longitude'', PInt (- 20))] 1700000000
   = Inr ''10_-20_1700000000''"
  using derive_fire_id_computed [of "[(''latitude'', PInt 10), (''longitude'', PInt (- 20)),
      (''acq_date'', PStr ''2024-01-15''), (''acq_time'', PStr ''0412'')]" "PInt 10" "PInt (- 20)"
      example_builtins 1700000000 1700000777]
    derive_fire_id_computed [of "[(''latitude'', PInt 10), (''longitude'', PInt (- 20))]"
      "PInt 10" "PInt (- 20)" example_builtins 1700000000 0]
  by (simp add: dict_get_def str_int_def digit_char_def)

subsection \<open>The store path of the Processor\<close>

lemma build_item_key:
  "build_item B f fid ts now = Inr it \<Longrightarrow> map_of it ''fire_id'' = Some (AStr fid)"
  by (auto simp: build_item_def bind_exn_def split: sum.splits)








lemma effective_key_cached:
  "effective_key E (w\<lparr>api_key_cache := Some (effective_key E w)\<rparr>) = effective_key E w"
  by (simp add: effective_key_def)

lemma snd_store_result:
  "snd (case p of (Inl e, w2) \<Rightarrow> (Inl e, w2) | (Inr u, w2) \<Rightarrow> (Inr True, w2)) = snd p"
  by (auto split: prod.splits sum.splits)



lemma attempted_keys_simps [simp]:
  "attempted_keys E k [] = {}"
  "attempted_keys E k (f # fs) = set_option (attempted_key E k f) \<union> attempted_keys E k fs"
  "attempted_keys E k (fs @ gs) = attempted_keys E k fs \<union> attempted_keys E k gs"
  by (auto simp: attempted_keys_def)







lemma all_fires_simps [simp]:
  "all_fires [] = []"
  "all_fires (r # rs) = (case body r of Inl e \<Rightarrow> [] | Inr m \<Rightarrow> fires m) @ all_fires rs"
  by (simp_all add: all_fires_def)






subsection \<open>Evaluation of the examples\<close>

lemma example_env_sel [simp]:
  "float_str example_env = (\<lambda>i. str_int i @ ''.0'')"
  "float_is_zero example_env = (\<lambda>i. i = 0)"
  "decimal_ok example_env = example_decimal_ok"
  "float_of_str example_env = example_float"
  "float_of_int example_env = (\<lambda>i. i)"
  "format_fixed example_env = example_format"
  "time_at example_env = (\<lambda>n. 1700000000 + n)"
  "put_fault example_env = (\<lambda>n. None)"
  "secret_api_key example_env = Inr ''bdc-key''"
  "environ_api_key example_env = Some ''bdc-key''"
  "geocode example_env = (\<lambda>k lat lon. Inl (URLError ''timed out''))"
  by (simp_all add: example_env_def)

lemmas eval_defs =
  lambda_handler_def process_fire_def dict_has_def dict_item_def dict_get_def
  get_location_from_coordinates_def get_bigdata_api_key_def unknown_location_def
  fire_record_def store_fire_data_def derive_fire_id_def acq_datetime_def
  build_item_def decimal_of_field_def decimal_or_zero_def to_decimal_def bind_exn_def
  put_item_def str_int_def digit_char_def example_decimal_ok_def int_of_str_def Let_def
  deliver_def delivery_of_def empty_world_def



lemma build_item_fields:
  assumes "build_item B r fid ts now = Inr it"
  shows "map_of it ''location_city'' = Some (AVal (dict_get r ''location_city'' (PStr ''Unknown'')))"
    and "map_of it ''location_locality'' = Some (AVal (dict_get r ''location_locality'' (PStr ''Unknown'')))"
    and "map_of it ''location_country'' = Some (AVal (dict_get r ''location_country'' (PStr ''Unknown'')))"
    and "map_of it ''location_state'' = Some (AVal (dict_get r ''location_state'' (PStr ''Unknown'')))"
  using assms by (auto simp: build_item_def bind_exn_def split: sum.splits)

lemma fire_record_unknown:
  "dict_get (fire_record fire lat lon unknown_location) ''location_city'' d = PStr ''Unknown''"
  "dict_get (fire_record fire lat lon unknown_location) ''location_locality'' d = PStr ''Unknown''"
  "dict_get (fire_record fire lat lon unknown_location) ''location_country'' d = PStr ''Unknown''"
  "dict_get (fire_record fire lat lon unknown_location) ''location_state'' d = PStr ''Unknown''"
  by (simp_all add: fire_record_def unknown_location_def dict_get_def)

lemma process_fire_geocode_failed:
  assumes "map_of fire ''latitude'' = Some lat"
    and "map_of fire ''longitude'' = Some lon"
    and "geocode E (effective_key E w) lat lon = Inl e"
  shows "process_fire E fire w =
           (case store_fire_data E (fire_record fire lat lon unknown_location)
                   (w\<lparr>api_key_cache := Some (effective_key E w)\<rparr>) of
              (Inl x, w2) \<Rightarrow> (Inl x, w2)
            | (Inr u, w2) \<Rightarrow> (Inr True, w2))"
  using assms
  by (simp add: process_fire_def dict_has_def dict_item_def get_location_from_coordinates_def
      effective_key_def Let_def)

lemma store_fire_data_inserts:
  assumes "derive_fire_id E r (time_at E (reads w)) = Inr fid"
    and "build_item E r fid (time_at E (reads w)) (time_at E (Suc (reads w))) = Inr it"
    and "put_fault E (puts w) = None"
    and "map_of (table w) fid = None"
  shows "fst (store_fire_data E r w) = Inr ()"
    and "table (snd (store_fire_data E r w)) = table w @ [(fid, it)]"
  using assms build_item_key [OF assms(2)]
  by (simp_all add: store_fire_data_def Let_def put_item_def)

text \<open>
  The failures that the lookup recovers from: when the request or the parsing of its
  reply raises, the enriched record has its four location fields equal to \<open>Unknown\<close>
  and is passed to the store write; when the write inserts, the stored item carries the
  four \<open>Unknown\<close> fields.
\<close>

lemma lookup_raises_degrades:
  assumes "map_of fire ''latitude'' = Some lat"
    and "map_of fire ''longitude'' = Some lon"
    and "geocode E (effective_key E w) lat lon = Inl e"
  shows "process_fire E fire w =
           (case store_fire_data E (fire_record fire lat lon unknown_location)
                   (w\<lparr>api_key_cache := Some (effective_key E w)\<rparr>) of
              (Inl x, w2) \<Rightarrow> (Inl x, w2)
            | (Inr u, w2) \<Rightarrow> (Inr True, w2))
         \<and> map_of (fire_record fire lat lon unknown_location) ''location_city'' = Some (PStr ''Unknown'')
         \<and> map_of (fire_record fire lat lon unknown_location) ''location_locality'' = Some (PStr ''Unknown'')
         \<and> map_of (fire_record fire lat lon unknown_location) ''location_country'' = Some (PStr ''Unknown'')
         \<and> map_of (fire_record fire lat lon unknown_location) ''location_state'' = Some (PStr ''Unknown'')
         \<and> (\<forall>fid it.
               derive_fire_id E (fire_record fire lat lon unknown_location) (time_at E (reads w)) = Inr fid \<and>
               build_item E (fire_record fire lat lon unknown_location) fid
                 (time_at E (reads w)) (time_at E (Suc (reads w))) = Inr it \<and>
               put_fault E (puts w) = None \<and> map_of (table w) fid = None
               \<longrightarrow> fst (process_fire E fire w) = Inr True
                 \<and> table (snd (process_fire E fire w)) = table w @ [(fid, it)]
                 \<and> map_of it ''location_city'' = Some (AVal (PStr ''Unknown''))
                 \<and> map_of it ''location_locality'' = Some (AVal (PStr ''Unknown''))
                 \<and> map_of it ''location_country'' = Some (AVal (PStr ''Unknown''))
                 \<and> map_of it ''location_state'' = Some (AVal (PStr ''Unknown'')))"
proof -
  let ?r = "fire_record fire lat lon unknown_location"
  let ?w1 = "w\<lparr>api_key_cache := Some (effective_key E w)\<rparr>"
  have p: "process_fire E fire w =
           (case store_fire_data E ?r ?w1 of
              (Inl x, w2) \<Rightarrow> (Inl x, w2)
            | (Inr u, w2) \<Rightarrow> (Inr True, w2))"
    using assms by (rule process_fire_geocode_failed)
  have f: "map_of ?r ''location_city'' = Some (PStr ''Unknown'')"
    "map_of ?r ''location_locality'' = Some (PStr ''Unknown'')"
    "map_of ?r ''location_country'' = Some (PStr ''Unknown'')"
    "map_of ?r ''location_state'' = Some (PStr ''Unknown'')"
    by (simp_all add: fire_record_def unknown_location_def dict_get_def)
  have s: "fst (process_fire E fire w) = Inr True
           \<and> table (snd (process_fire E fire w)) = table w @ [(fid, it)]
           \<and> map_of it ''location_city'' = Some (AVal (PStr ''Unknown''))
           \<and> map_of it ''location_locality'' = Some (AVal (PStr ''Unknown''))
           \<and> map_of it ''location_country'' = Some (AVal (PStr ''Unknown''))
           \<and> map_of it ''location_state'' = Some (AVal (PStr ''Unknown''))"
    if d: "derive_fire_id E ?r (time_at E (reads w)) = Inr fid"
      and b: "build_item E ?r fid (time_at E (reads w)) (time_at E (Suc (reads w))) = Inr it"
      and nf: "put_fault E (puts w) = None" and ab: "map_of (table w) fid = None"
    for fid it
  proof -
    have i1: "fst (store_fire_data E ?r ?w1) = Inr ()"
      using store_fire_data_inserts(1) [of E ?r ?w1 fid it] d b nf ab by simp
    have i2: "table (snd (store_fire_data E ?r ?w1)) = table w @ [(fid, it)]"
      using store_fire_data_inserts(2) [of E ?r ?w1 fid it] d b nf ab by simp
    have r1: "fst (process_fire E fire w) = Inr True"
      using i1 unfolding p by (cases "store_fire_data E ?r ?w1") (auto split: sum.splits)
    have r2: "table (snd (process_fire E fire w)) = table w @ [(fid, it)]"
      using i2 unfolding p by (simp add: snd_store_result)
    show ?thesis
      using r1 r2 build_item_fields [OF b] by (simp add: fire_record_unknown)
  qed
  show ?thesis using p f s by blast
qed

text \<open>On an example: the geocode service times out, the detection is stored with city \<open>Unknown\<close>.\<close>

lemma lookup_raises_example:
  "fst (process_fire example_env fire_a empty_world) = Inr True
   \<and> map fst (table (snd (process_fire example_env fire_a empty_world)))
       = [''34.0_-118.0_2024-01-15_0412'']
   \<and> map (\<lambda>it. map_of it ''location_city'') (map snd (table (snd (process_fire example_env fire_a empty_world))))
       = [Some (AVal (PStr ''Unknown''))]"
proof -
  have h1: "map_of fire_a ''latitude'' = Some (PFloat 34)"
    and h2: "map_of fire_a ''longitude'' = Some (PFloat (- 118))"
    by (simp_all add: fire_a_def)
  have h3: "geocode example_env (effective_key example_env empty_world) (PFloat 34) (PFloat (- 118))
            = Inl (URLError ''timed out'')"
    by simp
  have "process_fire example_env fire_a empty_world =
           (case store_fire_data example_env (fire_record fire_a (PFloat 34) (PFloat (- 118)) unknown_location)
                   (empty_world\<lparr>api_key_cache := Some (effective_key example_env empty_world)\<rparr>) of
              (Inl x, w2) \<Rightarrow> (Inl x, w2)
            | (Inr u, w2) \<Rightarrow> (Inr True, w2))"
    using lookup_raises_degrades [OF h1 h2 h3] by blast
  then show ?thesis
    by (simp add: eval_defs fire_a_def effective_key_def)
qed

text \<open>
  A reply that parses to something other than an object: \<open>location_data.get\<close> raises
  AttributeError in \<open>process_fire\<close>, after the key was cached and before any write.
\<close>

lemma process_fire_non_object:
  "process_fire non_object_env fire_a empty_world =
     (Inl AttributeError, empty_world\<lparr>api_key_cache := Some ''bdc-key''\<rparr>)"
  by (simp add: non_object_env_def eval_defs fire_a_def)

text \<open>
  C5: whenever the reverse-geocode lookup fails in any way (timeout, non-2xx status,
  malformed response), the enriched record has the four location fields \<open>Unknown\<close> and
  is still passed to the store write. \<open>get_location_from_coordinates\<close> returns the
  defaults when the request or \<open>json.loads\<close> raises, and \<open>process_fire\<close> reads the
  reply with \<open>.get(..., 'Unknown')\<close>; a malformed reply that parses to something other
  than an object passes the first and raises AttributeError in the second. The record
  is then dropped with an error entry and never reaches \<open>store_fire_data\<close>.
\<close>

theorem geocode_non_object_drops_record:
  "(case lambda_handler non_object_env (delivery_of [fire_a]) empty_world of
      (r, w) \<Rightarrow>
        stored r = 0 \<and> processed r = 0 \<and> errors_count r = 1 \<and>
        error_details r = [FireError fire_a AttributeError] \<and> statusCode r = 207 \<and>
        table w = [] \<and> store_log w = [])"
  by (simp add: non_object_env_def eval_defs fire_a_def)

text \<open>
  C3: a write that meets an existing \<open>fire_id\<close> raises no error, adds nothing to the error
  list, and is not counted as newly stored. The first two hold. The third does not:
  \<open>store_fire_data\<close> returns nothing after the skip, \<open>process_fire\<close> answers \<open>True\<close>,
  and the handler counts the record as stored. A delivery with the same detection twice
  reports two stored records for one record in the table.
\<close>

theorem duplicate_counted_as_stored:
  "(case lambda_handler example_env (delivery_of [fire_a, fire_a]) empty_world of
      (r, w) \<Rightarrow>
        stored r = 2 \<and> errors_count r = 0 \<and> error_details r = [] \<and> statusCode r = 200 \<and>
        map fst (table w) = [''34.0_-118.0_2024-01-15_0412''] \<and>
        store_log w =
          [Stored ''34.0_-118.0_2024-01-15_0412'', Duplicate ''34.0_-118.0_2024-01-15_0412''])"
  by (simp add: eval_defs fire_a_def)






subsection \<open>The report of a delivery\<close>

lemma faulty_env_sel [simp]:
  "float_str faulty_env = (\<lambda>i. str_int i @ ''.0'')"
  "float_is_zero faulty_env = (\<lambda>i. i = 0)"
  "decimal_ok faulty_env = example_decimal_ok"
  "time_at faulty_env = (\<lambda>n. 1700000000 + n)"
  "put_fault faulty_env =
     (\<lambda>n. if n = 2 \<or> n = 5 then Some ''ProvisionedThroughputExceededException'' else None)"
  "secret_api_key faulty_env = Inr ''bdc-key''"
  "geocode faulty_env = (\<lambda>k lat lon. Inl (URLError ''timed out''))"
  by (simp_all add: faulty_env_def)

lemma put_item_result:
  assumes "put_item E it True w = (r, w')"
  shows "store_log w' = store_log w \<and>
         length (table w') = (case r of Inr u \<Rightarrow> Suc (length (table w)) | Inl e \<Rightarrow> length (table w))"
  using assms
  by (auto simp: put_item_def Let_def split: option.splits attr_value.splits)

lemma store_fire_data_result:
  assumes "store_fire_data E f w = (r, w')"
  shows "completed_count w' = (case r of Inr u \<Rightarrow> Suc (completed_count w) | Inl e \<Rightarrow> completed_count w)
         \<and> length (table w') + inserted_count w = length (table w) + inserted_count w'"
  using assms
  by (auto simp: store_fire_data_def Let_def completed_count_def inserted_count_def
      split: sum.splits prod.splits if_splits dest!: put_item_result)

lemma process_fire_result:
  assumes "process_fire E f w = (r, w')"
  shows "completed_count w' = (if r = Inr True then Suc (completed_count w) else completed_count w)
         \<and> length (table w') + inserted_count w = length (table w) + inserted_count w'"
proof -
  have c: "completed_count (w\<lparr>api_key_cache := k\<rparr>) = completed_count w"
    "inserted_count (w\<lparr>api_key_cache := k\<rparr>) = inserted_count w" for k
    by (simp_all add: completed_count_def inserted_count_def)
  show ?thesis
    using assms
    by (auto simp: process_fire_def get_location_from_coordinates_def Let_def c
        split: sum.splits prod.splits json.splits if_splits dest!: store_fire_data_result)
qed


lemma process_batch_result:
  assumes "process_batch E fs t w = (t', w')"
  shows "total_stored t' + completed_count w = total_stored t + completed_count w'
         \<and> total_processed t' + length (errors t') =
             total_processed t + length (errors t) + length fs
         \<and> length (table w') + inserted_count w = length (table w) + inserted_count w'"
  using assms
proof (induction fs arbitrary: t w)
  case Nil
  then show ?case by simp
next
  case (Cons f fs)
  obtain r w1 where p: "process_fire E f w = (r, w1)" by (cases "process_fire E f w")
  note s = process_fire_result [OF p]
  show ?case
  proof (cases r)
    case (Inl e)
    then have "process_batch E fs (t\<lparr>errors := errors t @ [FireError f e]\<rparr>) w1 = (t', w')"
      using Cons.prems p by simp
    from Cons.IH [OF this] s Inl show ?thesis by simp
  next
    case (Inr success)
    then have "process_batch E fs
        (t\<lparr>total_stored := (if success then Suc (total_stored t) else total_stored t),
           total_processed := Suc (total_processed t)\<rparr>) w1 = (t', w')"
      using Cons.prems p by simp
    from Cons.IH [OF this] s Inr show ?thesis by (cases success) simp_all
  qed
qed

lemma bad_bodies_simps [simp]:
  "bad_bodies [] = 0"
  "bad_bodies (r # rs) = (case body r of Inl e \<Rightarrow> Suc (bad_bodies rs) | Inr m \<Rightarrow> bad_bodies rs)"
  by (simp_all add: bad_bodies_def split: sum.splits)

lemma process_records_result:
  assumes "process_records E rs t w = (t', w')"
  shows "total_stored t' + completed_count w = total_stored t + completed_count w'
         \<and> total_processed t' + length (errors t') =
             total_processed t + length (errors t) + length (all_fires rs) + bad_bodies rs
         \<and> length (table w') + inserted_count w = length (table w) + inserted_count w'"
  using assms
proof (induction rs arbitrary: t w)
  case Nil
  then show ?case by simp
next
  case (Cons r rs)
  show ?case
  proof (cases "body r")
    case (Inl e)
    then have "process_records E rs (t\<lparr>errors := errors t @ [RecordError (messageId r) e]\<rparr>) w = (t', w')"
      using Cons.prems by simp
    from Cons.IH [OF this] Inl show ?thesis by simp
  next
    case (Inr m)
    obtain t1 w1 where b: "process_batch E (fires m) t w = (t1, w1)"
      by (cases "process_batch E (fires m) t w")
    then have "process_records E rs t1 w1 = (t', w')"
      using Cons.prems Inr by simp
    from Cons.IH [OF this] process_batch_result [OF b] Inr show ?thesis by simp
  qed
qed

text \<open>
  What the report of a delivery counts, for every delivery: the status is 207 with
  errors and 200 without, the error details are the first ten errors, every fire is
  either processed or has an error entry (errors from unreadable bodies added), the
  table grows by the inserted records, and \<open>stored\<close> counts the completed writes:
  the inserts and the skipped duplicates.
\<close>

lemma partial_success_report:
  assumes "lambda_handler E records w = (r, w')"
  shows "statusCode r = (if errors_count r = 0 then 200 else 207)
         \<and> length (error_details r) = min 10 (errors_count r)
         \<and> processed r + errors_count r = length (all_fires records) + bad_bodies records
         \<and> stored r + completed_count w = completed_count w'
         \<and> length (table w') + inserted_count w = length (table w) + inserted_count w'"
proof -
  obtain t w1 where p: "process_records E records
      \<lparr>total_processed = 0, total_stored = 0, errors = []\<rparr> w = (t, w1)"
    by (cases "process_records E records \<lparr>total_processed = 0, total_stored = 0, errors = []\<rparr> w")
  have c: "completed_count (w1\<lparr>reads := n\<rparr>) = completed_count w1"
    "inserted_count (w1\<lparr>reads := n\<rparr>) = inserted_count w1" for n
    by (simp_all add: completed_count_def inserted_count_def)
  show ?thesis
    using assms process_records_result [OF p]
    by (auto simp: lambda_handler_def p c)
qed

text \<open>
  C8: the report gives \<open>stored\<close> as the count of records written, \<open>errors\<close> as the count
  of records whose processing raised, at most ten error details and the status 207 or
  200. On a delivery of ten records of which two fail the store write and one repeats an
  earlier one, the report has \<open>stored = 8\<close>, \<open>errors = 2\<close>, two error details and status
  207, as the claim says, but seven records were written: the skipped duplicate is
  counted as stored.
\<close>

theorem partial_success_with_duplicate:
  "(case lambda_handler faulty_env
           (delivery_of (map fire_at [1, 2, 3, 4, 5, 6, 7, 8, 9, 1])) empty_world of
      (r, w) \<Rightarrow>
        stored r = 8 \<and> errors_count r = 2 \<and> length (error_details r) = 2 \<and>
        statusCode r = 207 \<and> processed r = 8 \<and> length (table w) = 7 \<and>
        store_log w =
          [Stored ''1.0_-118.0_2024-01-15_0412'', Stored ''2.0_-118.0_2024-01-15_0412'',
           StoreFailed ''3.0_-118.0_2024-01-15_0412'', Stored ''4.0_-118.0_2024-01-15_0412'',
           Stored ''5.0_-118.0_2024-01-15_0412'', StoreFailed ''6.0_-118.0_2024-01-15_0412'',
           Stored ''7.0_-118.0_2024-01-15_0412'', Stored ''8.0_-118.0_2024-01-15_0412'',
           Stored ''9.0_-118.0_2024-01-15_0412'', Duplicate ''1.0_-118.0_2024-01-15_0412''])"
  by (simp add: eval_defs fire_at_def)

subsection \<open>The row filter of the Fetcher\<close>

lemma float_column_zip:
  "float_column B (zip_dict header (split_on CHR '','' line)) k =
     (case column header line k of
        None \<Rightarrow> Inr (PFloat (float_of_int B 0))
      | Some s \<Rightarrow> (case float_of_str B s of None \<Rightarrow> Inl (ValueError s) | Some x \<Rightarrow> Inr (PFloat x)))"
  by (simp add: float_column_def zip_dict_def column_def)

lemma text_column_zip:
  "text_column (zip_dict header (split_on CHR '','' line)) k d = text_value header line k d"
  by (simp add: text_column_def text_value_def zip_dict_def column_def)

lemma float_column_ok:
  "numeric_ok B header line k \<Longrightarrow>
     float_column B (zip_dict header (split_on CHR '','' line)) k = Inr (numeric_value B header line k)"
  by (auto simp: float_column_zip numeric_ok_def numeric_value_def split: option.splits)

lemma float_column_bad:
  "\<not> numeric_ok B header line k \<Longrightarrow>
     \<exists>e. float_column B (zip_dict header (split_on CHR '','' line)) k = Inl e"
  by (auto simp: float_column_zip numeric_ok_def split: option.splits)

lemma csv_fire_record_valid:
  assumes "numeric_ok B header line ''latitude''" "numeric_ok B header line ''longitude''"
    "numeric_ok B header line ''brightness''" "numeric_ok B header line ''frp''"
  shows "csv_fire_record B (zip_dict header (split_on CHR '','' line)) = Inr (csv_record B header line)"
  using assms
  by (simp add: csv_fire_record_def bind_exn_def float_column_ok text_column_zip csv_record_def)

lemma csv_fire_record_invalid:
  assumes "\<not> (numeric_ok B header line ''latitude'' \<and> numeric_ok B header line ''longitude'' \<and>
    numeric_ok B header line ''brightness'' \<and> numeric_ok B header line ''frp'')"
  shows "\<exists>e. csv_fire_record B (zip_dict header (split_on CHR '','' line)) = Inl e"
proof -
  let ?fc = "\<lambda>k. float_column B (zip_dict header (split_on CHR '','' line)) k"
  consider "\<not> numeric_ok B header line ''latitude''"
    | "numeric_ok B header line ''latitude''" "\<not> numeric_ok B header line ''longitude''"
    | "numeric_ok B header line ''latitude''" "numeric_ok B header line ''longitude''"
      "\<not> numeric_ok B header line ''brightness''"
    | "numeric_ok B header line ''latitude''" "numeric_ok B header line ''longitude''"
      "numeric_ok B header line ''brightness''" "\<not> numeric_ok B header line ''frp''"
    using assms by blast
  then show ?thesis
  proof cases
    case 1
    then obtain e where "?fc ''latitude'' = Inl e" using float_column_bad by blast
    then show ?thesis by (simp add: csv_fire_record_def bind_exn_def)
  next
    case 2
    then obtain e where "?fc ''longitude'' = Inl e" using float_column_bad by blast
    then show ?thesis using 2 by (simp add: csv_fire_record_def bind_exn_def float_column_ok)
  next
    case 3
    then obtain e where "?fc ''brightness'' = Inl e" using float_column_bad by blast
    then show ?thesis using 3 by (simp add: csv_fire_record_def bind_exn_def float_column_ok)
  next
    case 4
    then obtain e where "?fc ''frp'' = Inl e" using float_column_bad by blast
    then show ?thesis using 4 by (simp add: csv_fire_record_def bind_exn_def float_column_ok)
  qed
qed

lemma parse_rows_filter:
  "parse_rows B header lines acc =
     acc @ map (csv_record B header) (filter (row_valid B header) lines)"
proof (induction lines arbitrary: acc)
  case Nil
  then show ?case by simp
next
  case (Cons line lines)
  show ?case
  proof (cases "row_valid B header line")
    case True
    then have "csv_fire_record B (zip_dict header (split_on CHR '','' line)) = Inr (csv_record B header line)"
      by (simp add: row_valid_def csv_fire_record_valid)
    then show ?thesis using True Cons.IH by (simp add: Let_def row_valid_def)
  next
    case False
    show ?thesis
    proof (cases "length (split_on CHR '','' line) < length header")
      case True
      then show ?thesis using False Cons.IH by (simp add: Let_def)
    next
      case long: False
      then obtain e where "csv_fire_record B (zip_dict header (split_on CHR '','' line)) = Inl e"
        using False csv_fire_record_invalid [of B header line] by (auto simp: row_valid_def)
      then show ?thesis using False long Cons.IH by (simp add: Let_def)
    qed
  qed
qed

text \<open>
  The rows that the loop keeps: those not shorter than the header in which the text of
  each latitude, longitude, brightness and frp column parses; each yields one detection,
  in order and whatever the other rows are. A response of fewer than two lines yields
  nothing.
\<close>

lemma parse_csv_data_kept_rows:
  "parse_csv_data B csv_data =
     (case split_on CHR 0x0A (py_strip csv_data) of
        header_line # row # rows \<Rightarrow>
          map (csv_record B (split_on CHR '','' header_line))
            (filter (row_valid B (split_on CHR '','' header_line)) (row # rows))
      | _ \<Rightarrow> [])"
  by (simp add: parse_csv_data_def parse_rows_filter split: list.splits)

lemmas csv_eval_defs =
  py_strip_def whitespace_def strip_leading.simps row_valid_def numeric_ok_def column_def csv_record_def
  numeric_value_def text_value_def example_float_def int_of_str_def

text \<open>
  The example of the specification: three valid rows and one row with latitude \<open>abc\<close>
  yield exactly three detections.
\<close>

lemma parse_csv_example:
  "map (\<lambda>d. map_of d ''latitude'') (parse_csv_data example_builtins example_csv)
     = [Some (PFloat 34), Some (PFloat 35), Some (PFloat 36)]"
  using parse_csv_data_kept_rows [of example_builtins example_csv]
  by (simp add: example_csv_def csv_eval_defs)

text \<open>
  C6: \<open>parse_csv_data\<close> discards exactly the invalid rows: a row shorter than the
  header, a row whose latitude, longitude or other numeric column fails to parse, and a
  row missing a required column. The loop skips the short rows and the rows of
  \<open>ValueError\<close>, and its handler names \<open>KeyError\<close> for the missing column; but every
  column is read with \<open>fire.get(name, default)\<close>, which never raises \<open>KeyError\<close>. A
  response without a latitude column keeps its row, as a detection at latitude
  \<open>float(0)\<close>.
\<close>

theorem missing_column_row_kept:
  "parse_csv_data example_builtins csv_without_latitude =
     [[(''latitude'', PFloat 0), (''longitude'', PFloat (- 118)), (''brightness'', PFloat 330),
       (''confidence'', PStr ''unknown''), (''frp'', PFloat 0), (''acq_date'', PStr ''''),
       (''acq_time'', PStr ''''), (''satellite'', PStr ''''), (''instrument'', PStr ''''),
       (''daynight'', PStr '''')]]"
  by (simp add: parse_csv_data_def csv_without_latitude_def py_strip_def whitespace_def
      strip_leading.simps Let_def
      zip_dict_def csv_fire_record_def float_column_def text_column_def bind_exn_def
      example_float_def int_of_str_def)

subsection \<open>The alternate entry point\<close>











subsection \<open>The handler of the Change Notifier\<close>

lemma example_notifier_sel:
  "float_str example_notifier = (\<lambda>i. str_int i @ ''.0'')"
  "float_of_str example_notifier = example_float"
  "float_of_int example_notifier = (\<lambda>i. i)"
  "format_fixed example_notifier = example_format"
  "sns_publish example_notifier = (\<lambda>request. Inr ''message-1'')"
  "detection_time example_notifier = ''2024-01-15 04:30:00 UTC''"
  by (simp_all add: example_notifier_def)

lemma failing_notifier_sel:
  "float_str failing_notifier = (\<lambda>i. str_int i @ ''.0'')"
  "float_of_str failing_notifier = example_float"
  "float_of_int failing_notifier = (\<lambda>i. i)"
  "format_fixed failing_notifier = example_format"
  "sns_publish failing_notifier = (\<lambda>request. Inl (ClientError ''AuthorizationError''))"
  "detection_time failing_notifier = ''2024-01-15 04:30:00 UTC''"
  by (simp_all add: failing_notifier_def example_notifier_def)

lemma parse_fire_image:
  "parse_dynamodb_item example_notifier (fire_image fid city country) =
     [(''fire_id'', PStr fid), (''latitude'', PFloat 34), (''longitude'', PFloat (- 118)),
      (''brightness'', PFloat 330), (''confidence'', PStr ''n''), (''frp'', PFloat 12),
      (''location_city'', PStr city), (''location_state'', PStr ''State''),
      (''location_country'', PStr country), (''satellite'', PStr ''N''),
      (''acq_date'', PStr ''2024-01-15''), (''acq_time'', PStr ''0412'')]"
  by (simp add: parse_dynamodb_item_def fire_image_def attr_N_def attr_S_def bind_exn_def
      example_notifier_sel example_float_def int_of_str_def)

text \<open>
  A failed publish never leaves the handler as an exception: \<open>send_fire_alerts\<close> re-raises
  it, and the handler's \<open>except Exception\<close> turns it into a returned result with status
  500.
\<close>

lemma sp_lambda_handler_returns: "\<exists>r. fst (sp_lambda_handler N records w) = Inr r"
  by (simp add: sp_lambda_handler_def split: sum.splits prod.splits)

lemma publish_failure_returned:
  assumes "classify_records N records \<lparr>new_fires = [], updated_fires = [], removed_fires = []\<rparr> = Inr ls"
    and "new_fires ls \<noteq> []"
    and "sns_publish N (alert_request N (new_fires ls)) = Inl e"
  shows "sp_lambda_handler N records w =
           (Inr (SpError e), w\<lparr>sns_calls := sns_calls w @ [alert_request N (new_fires ls)]\<rparr>)"
  using assms by (simp add: sp_lambda_handler_def send_fire_alerts_def Let_def)

text \<open>
  C4: the code does not propagate a failed publish. \<open>send_fire_alerts\<close> re-raises the
  exception of \<open>sns.publish\<close>, but \<open>lambda_handler\<close> catches every exception and returns a
  result with status 500: the invocation ends without an error, so the stream sees a
  successful invocation and does not redeliver the records. On a delivery with one
  INSERT and a topic that refuses the request, \<open>send_fire_alerts\<close> raises, and the handler
  returns.
\<close>

theorem publish_failure_swallowed:
  "(case sp_lambda_handler failing_notifier
           [insert_record (fire_image ''f1'' ''Tijuana'' ''Mexico'')] no_calls of
      (outcome, w) \<Rightarrow>
        send_fire_alerts failing_notifier
          [parse_dynamodb_item failing_notifier (fire_image ''f1'' ''Tijuana'' ''Mexico'')] no_calls =
          (Inl (ClientError ''AuthorizationError''), w) \<and>
        length (sns_calls w) = 1 \<and>
        outcome = Inr (SpError (ClientError ''AuthorizationError'')) \<and>
        sp_status (SpError (ClientError ''AuthorizationError'')) = 500)"
  by (simp add: sp_lambda_handler_def send_fire_alerts_def insert_record_def no_calls_def
      failing_notifier_sel Let_def)

lemma classify_records_no_insert:
  assumes "\<forall>r \<in> set records. eventName r \<noteq> ''INSERT''"
    and "classify_records B records ls = Inr ls'"
  shows "new_fires ls' = new_fires ls"
  using assms
proof (induction records arbitrary: ls)
  case Nil
  then show ?case by simp
next
  case (Cons r rest)
  from Cons.prems(1) have ne: "eventName r \<noteq> ''INSERT''"
    and rest: "\<forall>r \<in> set rest. eventName r \<noteq> ''INSERT''" by simp_all
  show ?case
    using Cons.prems(2) ne Cons.IH [OF rest]
    by (auto split: if_splits option.splits)
qed

lemma classify_records_counts:
  assumes "\<forall>r \<in> set records. eventName r \<noteq> ''INSERT''"
    and "\<forall>r \<in> set records. carries_image r"
  shows "\<exists>ls'. classify_records B records ls = Inr ls' \<and>
           new_fires ls' = new_fires ls \<and>
           length (updated_fires ls') =
             length (updated_fires ls) + count_events ''MODIFY'' records \<and>
           length (removed_fires ls') =
             length (removed_fires ls) + count_events ''REMOVE'' records"
  using assms
proof (induction records arbitrary: ls)
  case Nil
  then show ?case by (simp add: count_events_def)
next
  case (Cons r rest)
  from Cons.prems have ne: "eventName r \<noteq> ''INSERT''" and im: "carries_image r"
    and rest: "\<forall>r \<in> set rest. eventName r \<noteq> ''INSERT''" "\<forall>r \<in> set rest. carries_image r"
    by simp_all
  note ih = Cons.IH [OF rest]
  consider (m) "eventName r = ''MODIFY''" | (d) "eventName r = ''REMOVE''"
    | (o) "eventName r \<noteq> ''MODIFY''" "eventName r \<noteq> ''REMOVE''" by blast
  then show ?case
  proof cases
    case m
    then obtain new where n: "NewImage r = Some new" using im by (auto simp: carries_image_def)
    show ?thesis
      using ih [of "ls\<lparr>updated_fires := updated_fires ls @ [parse_dynamodb_item B new]\<rparr>"] m n
      by (auto simp: count_events_def)
  next
    case d
    then obtain old where n: "OldImage r = Some old" using im by (auto simp: carries_image_def)
    show ?thesis
      using ih [of "ls\<lparr>removed_fires := removed_fires ls @ [parse_dynamodb_item B old]\<rparr>"] d n
      by (auto simp: count_events_def)
  next
    case o
    show ?thesis
      using ih [of ls] o ne by (auto simp: count_events_def)
  qed
qed

text \<open>
  C9: a delivery without INSERT events makes no publish call, whatever its records, and
  the handler returns. When its MODIFY and REMOVE records carry their images, as the
  event format of the handler has it, the handler returns the summary with status 200,
  no new fire, and the MODIFY and REMOVE events counted.
\<close>

theorem no_insert_no_publish:
  assumes "\<forall>r \<in> set records. eventName r \<noteq> ''INSERT''"
  shows "sns_calls (snd (sp_lambda_handler N records w)) = sns_calls w \<and>
         (\<exists>r. fst (sp_lambda_handler N records w) = Inr r) \<and>
         ((\<forall>r \<in> set records. carries_image r) \<longrightarrow>
            fst (sp_lambda_handler N records w) =
              Inr (SpComplete 0 (count_events ''MODIFY'' records) (count_events ''REMOVE'' records)) \<and>
            sp_status (SpComplete 0 (count_events ''MODIFY'' records)
                         (count_events ''REMOVE'' records)) = 200)"
proof (intro conjI impI)
  show "sns_calls (snd (sp_lambda_handler N records w)) = sns_calls w"
    using classify_records_no_insert [OF assms, of N "\<lparr>new_fires = [], updated_fires = [], removed_fires = []\<rparr>"]
    by (auto simp: sp_lambda_handler_def split: sum.splits prod.splits)
  show "\<exists>r. fst (sp_lambda_handler N records w) = Inr r"
    by (rule sp_lambda_handler_returns)
  show "fst (sp_lambda_handler N records w) =
          Inr (SpComplete 0 (count_events ''MODIFY'' records) (count_events ''REMOVE'' records))"
    if "\<forall>r \<in> set records. carries_image r"
    using classify_records_counts [OF assms that, of N "\<lparr>new_fires = [], updated_fires = [], removed_fires = []\<rparr>"]
    by (auto simp: sp_lambda_handler_def)
  show "sp_status (SpComplete 0 (count_events ''MODIFY'' records)
                         (count_events ''REMOVE'' records)) = 200"
    by simp
qed

text \<open>C9, on an example: two MODIFY events and one REMOVE event.\<close>

theorem no_insert_no_publish_witness:
  "sp_lambda_handler example_notifier
     [modify_record (fire_image ''f1'' ''Tijuana'' ''Mexico'') (fire_image ''f1'' ''Mexicali'' ''Mexico''),
      remove_record (fire_image ''f2'' ''Yuma'' ''USA''),
      modify_record (fire_image ''f3'' ''Reno'' ''USA'') (fire_image ''f3'' ''Reno'' ''USA'')]
     no_calls =
   (Inr (SpComplete 0 2 1), no_calls)"
proof -
  let ?records =
    "[modify_record (fire_image ''f1'' ''Tijuana'' ''Mexico'') (fire_image ''f1'' ''Mexicali'' ''Mexico''),
      remove_record (fire_image ''f2'' ''Yuma'' ''USA''),
      modify_record (fire_image ''f3'' ''Reno'' ''USA'') (fire_image ''f3'' ''Reno'' ''USA'')]"
  have h1: "\<forall>r \<in> set ?records. eventName r \<noteq> ''INSERT''"
    by (simp add: modify_record_def remove_record_def)
  have h2: "\<forall>r \<in> set ?records. carries_image r"
    by (simp add: modify_record_def remove_record_def carries_image_def)
  have c: "count_events ''MODIFY'' ?records = 2" "count_events ''REMOVE'' ?records = 1"
    by (simp_all add: count_events_def modify_record_def remove_record_def)
  have "sns_calls (snd (sp_lambda_handler example_notifier ?records no_calls)) = sns_calls no_calls"
    and "fst (sp_lambda_handler example_notifier ?records no_calls) = Inr (SpComplete 0 2 1)"
    using no_insert_no_publish [OF h1, of example_notifier no_calls] h2 unfolding c by blast+
  then show ?thesis
    by (cases "sp_lambda_handler example_notifier ?records no_calls") simp
qed

text \<open>
  A REMOVE record without its old image makes \<open>record['dynamodb']['OldImage']\<close> raise
  KeyError, which the handler returns with status 500; there is still no publish call.
\<close>

lemma remove_without_image:
  "sp_lambda_handler N [\<lparr>eventName = ''REMOVE'', NewImage = None, OldImage = None\<rparr>] w =
     (Inr (SpError (KeyError ''OldImage'')), w)"
  by (simp add: sp_lambda_handler_def)

subsection \<open>The aggregation of an alert\<close>









lemma classify_records_inserts:
  "classify_records B (map insert_record images) ls =
     Inr (ls\<lparr>new_fires := new_fires ls @ map (parse_dynamodb_item B) images\<rparr>)"
  by (induction images arbitrary: ls) (simp_all add: insert_record_def)

text \<open>
  A delivery of INSERT events makes one publish call, with the request that
  \<open>send_fire_alerts\<close> builds from the parsed new images.
\<close>

lemma inserts_published:
  assumes "images \<noteq> []"
  shows "sns_calls (snd (sp_lambda_handler N (map insert_record images) w)) =
           sns_calls w @ [alert_request N (map (parse_dynamodb_item N) images)]"
  using assms
  by (simp add: sp_lambda_handler_def classify_records_inserts send_fire_alerts_def Let_def
      split: sum.splits)


subsection \<open>The alert of the examples\<close>

lemma replicate_4: "replicate 4 c = [c, c, c, c]"
  by (simp add: numeral_eq_Suc)

lemma replicate_1: "replicate 1 c = [c]"
  by simp

lemma parse_example_fire:
  "parse_dynamodb_item example_notifier (fire_image fid city country) =
     example_fire fid city country"
  by (simp add: parse_fire_image example_fire_def)

lemma country_of_example_fire:
  "country_of example_notifier (example_fire fid city country) = country"
  by (simp add: country_of_def example_fire_def dict_get_def)

lemma detail_lines_example_fire:
  "detail_lines example_notifier (example_fire fid city country) =
     [''  '' @ bullet_sign @ '' '' @ city @ '', State (34.0000, -118.0000)'',
      ''    Confidence: n, FRP: 12.0 MW'']"
  by (simp add: detail_lines_def example_fire_def dict_get_def example_notifier_sel
      example_format_def str_int_def digit_char_def Let_def replicate_4 replicate_1)

lemma fires_by_country_step:
  "fires_by_country B (fire # rest) groups =
     fires_by_country B rest
       (if country_of B fire \<in> fst ` set groups
        then AList.map_entry (country_of B fire) (\<lambda>fs. fs @ [fire]) groups
        else groups @ [(country_of B fire, [fire])])"
proof -
  have "AList.map_entry k f (al @ [(k, v)]) = al @ [(k, f v)]" if "k \<notin> fst ` set al"
    for k :: string and f :: "'a pydict list \<Rightarrow> 'a pydict list" and al v
    using that by (induction al) auto
  then show ?thesis
    by (auto simp: Let_def map_of_eq_None_iff)
qed

lemma fires_by_country_seven:
  "fires_by_country example_notifier (map (parse_dynamodb_item example_notifier) seven_images) [] =
     [(''USA'', [example_fire ''u1'' ''Yuma'' ''USA'', example_fire ''u2'' ''Reno'' ''USA'']),
      (''Mexico'',
       [example_fire ''m1'' ''Tijuana'' ''Mexico'', example_fire ''m2'' ''Mexicali'' ''Mexico'',
        example_fire ''m3'' ''Ensenada'' ''Mexico'', example_fire ''m4'' ''Tecate'' ''Mexico'',
        example_fire ''m5'' ''Rosarito'' ''Mexico''])]"
  by (simp add: seven_images_def parse_example_fire fires_by_country_step country_of_example_fire
      del: fires_by_country.simps(2))

lemma suc_numerals:
  "Suc (Suc 0) = 2"
  by simp

lemma length_images: "length seven_images = 7" "length six_images = 6"
  by (simp_all add: seven_images_def six_images_def)

lemmas notifier_eval =
  alert_lines_def add_country_breakdown.simps add_fire_details.simps
  detail_lines_example_fire suc_numerals length_images digit_char_def Let_def

text \<open>
  The boundary case of the cap: a group of five fires has five details and no overflow
  line, groups come in lexicographic order though the first fire is in the USA, and the
  fires of a group keep their arrival order.
\<close>

lemma five_fires_no_overflow:
  "alert_lines example_notifier (map (parse_dynamodb_item example_notifier) seven_images) =
     [''Firewatch has detected 7 new active fire(s).'',
      '''',
      ''Summary by Country:'',
      rule_line,
      '''',
      pin_sign @ '' Mexico: 5 fire(s)'',
      ''  '' @ bullet_sign @ '' Tijuana, State (34.0000, -118.0000)'',
      ''    Confidence: n, FRP: 12.0 MW'',
      ''  '' @ bullet_sign @ '' Mexicali, State (34.0000, -118.0000)'',
      ''    Confidence: n, FRP: 12.0 MW'',
      ''  '' @ bullet_sign @ '' Ensenada, State (34.0000, -118.0000)'',
      ''    Confidence: n, FRP: 12.0 MW'',
      ''  '' @ bullet_sign @ '' Tecate, State (34.0000, -118.0000)'',
      ''    Confidence: n, FRP: 12.0 MW'',
      ''  '' @ bullet_sign @ '' Rosarito, State (34.0000, -118.0000)'',
      ''    Confidence: n, FRP: 12.0 MW'',
      '''',
      pin_sign @ '' USA: 2 fire(s)'',
      ''  '' @ bullet_sign @ '' Yuma, State (34.0000, -118.0000)'',
      ''    Confidence: n, FRP: 12.0 MW'',
      ''  '' @ bullet_sign @ '' Reno, State (34.0000, -118.0000)'',
      ''    Confidence: n, FRP: 12.0 MW'',
      '''',
      rule_line,
      ''Detection time: 2024-01-15 04:30:00 UTC'',
      '''',
      ''This is an automated alert from Firewatch.'']"
  by (simp add: notifier_eval fires_by_country_seven example_notifier_sel)

lemma fires_by_country_six:
  "fires_by_country example_notifier (map (parse_dynamodb_item example_notifier) six_images) [] =
     [(''Mexico'',
       [example_fire ''m1'' ''Tijuana'' ''Mexico'', example_fire ''m2'' ''Mexicali'' ''Mexico'',
        example_fire ''m3'' ''Ensenada'' ''Mexico'', example_fire ''m4'' ''Tecate'' ''Mexico'',
        example_fire ''m5'' ''Rosarito'' ''Mexico'', example_fire ''m6'' ''Loreto'' ''Mexico''])]"
  by (simp add: six_images_def parse_example_fire fires_by_country_step country_of_example_fire
      del: fires_by_country.simps(2))

text \<open>A group of six fires has five details and the line \<open>... and 1 more\<close>.\<close>

lemma six_fires_overflow:
  "alert_lines example_notifier (map (parse_dynamodb_item example_notifier) six_images) =
     [''Firewatch has detected 6 new active fire(s).'',
      '''',
      ''Summary by Country:'',
      rule_line,
      '''',
      pin_sign @ '' Mexico: 6 fire(s)'',
      ''  '' @ bullet_sign @ '' Tijuana, State (34.0000, -118.0000)'',
      ''    Confidence: n, FRP: 12.0 MW'',
      ''  '' @ bullet_sign @ '' Mexicali, State (34.0000, -118.0000)'',
      ''    Confidence: n, FRP: 12.0 MW'',
      ''  '' @ bullet_sign @ '' Ensenada, State (34.0000, -118.0000)'',
      ''    Confidence: n, FRP: 12.0 MW'',
      ''  '' @ bullet_sign @ '' Tecate, State (34.0000, -118.0000)'',
      ''    Confidence: n, FRP: 12.0 MW'',
      ''  '' @ bullet_sign @ '' Rosarito, State (34.0000, -118.0000)'',
      ''    Confidence: n, FRP: 12.0 MW'',
      ''  ... and 1 more'',
      '''',
      rule_line,
      ''Detection time: 2024-01-15 04:30:00 UTC'',
      '''',
      ''This is an automated alert from Firewatch.'']"
  by (simp add: notifier_eval fires_by_country_six example_notifier_sel)

subsection \<open>White space around the feed\<close>

text \<open>
  \<open>str.strip\<close> removes the white space of Unicode, not only of ASCII: a response whose
  second line is a no-break space (U+00A0, in UTF-8 the bytes C2 A0) has one line after
  \<open>strip\<close>, and \<open>parse_csv_data\<close> returns the empty list.
\<close>

lemma strip_unicode_space:
  "py_strip (''x'' @ [CHR 0x0A, CHR 0xC2, CHR 0xA0]) = ''x''"
  "parse_csv_data example_builtins (''x'' @ [CHR 0x0A, CHR 0xC2, CHR 0xA0]) = []"
  by (simp_all add: parse_csv_data_def py_strip_def whitespace_def strip_leading.simps Let_def)

end
